theory Spec2Isabelle
  imports Complex_Main
begin

section \<open>NumPy float64 values\<close>

text \<open>
  The arrays of \<^verbatim>\<open>iceutils/sim/models.py\<close> hold float64 values. A value is modelled
  as an exact real number or one of the three special values of IEEE arithmetic.
  Rounding, overflow and underflow are not modelled. The sign of a zero is kept for the
  entries of the velocity argument only (the type \<open>fin64\<close> below), where
  \<^verbatim>\<open>np.copysign\<close> reads it; a zero that the arithmetic produces is \<open>+0.0\<close>. The
  operations give the special values that NumPy gives (it warns and goes on where
  Python's own scalars raise).

  The statements below about the recombined residual, the drags, the viscosity and the
  basal term of the Jacobian are chosen so that rounding leaves them true: they rest on
  the grouping of the operations as the code writes them, on the symmetry of each
  operation under a change of sign, on the order of the values and on the special
  values; none rests on associativity or on a law of powers.
\<close>

datatype fval = Fin real | PInf | NInf | NaN

instantiation fval :: "{zero,one,plus,uminus,minus,times,inverse,abs}"
begin

definition zero_fval :: fval where
  "zero_fval = Fin 0"

definition one_fval :: fval where
  "one_fval = Fin 1"

fun plus_fval :: "fval \<Rightarrow> fval \<Rightarrow> fval" where
  "plus_fval (Fin a) (Fin b) = Fin (a + b)"
| "plus_fval NaN _ = NaN"
| "plus_fval _ NaN = NaN"
| "plus_fval PInf NInf = NaN"
| "plus_fval NInf PInf = NaN"
| "plus_fval PInf _ = PInf"
| "plus_fval _ PInf = PInf"
| "plus_fval NInf _ = NInf"
| "plus_fval _ NInf = NInf"

fun uminus_fval :: "fval \<Rightarrow> fval" where
  "uminus_fval (Fin a) = Fin (- a)"
| "uminus_fval PInf = NInf"
| "uminus_fval NInf = PInf"
| "uminus_fval NaN = NaN"

definition minus_fval :: "fval \<Rightarrow> fval \<Rightarrow> fval" where
  "minus_fval x y = x + (- y)"

fun times_fval :: "fval \<Rightarrow> fval \<Rightarrow> fval" where
  "times_fval (Fin a) (Fin b) = Fin (a * b)"
| "times_fval NaN _ = NaN"
| "times_fval _ NaN = NaN"
| "times_fval PInf (Fin b) = (if b = 0 then NaN else if 0 < b then PInf else NInf)"
| "times_fval NInf (Fin b) = (if b = 0 then NaN else if 0 < b then NInf else PInf)"
| "times_fval (Fin a) PInf = (if a = 0 then NaN else if 0 < a then PInf else NInf)"
| "times_fval (Fin a) NInf = (if a = 0 then NaN else if 0 < a then NInf else PInf)"
| "times_fval PInf PInf = PInf"
| "times_fval PInf NInf = NInf"
| "times_fval NInf PInf = NInf"
| "times_fval NInf NInf = PInf"

fun divide_fval :: "fval \<Rightarrow> fval \<Rightarrow> fval" where
  "divide_fval (Fin a) (Fin b) =
     (if b = 0 then (if a = 0 then NaN else if 0 < a then PInf else NInf)
      else Fin (a / b))"
| "divide_fval NaN _ = NaN"
| "divide_fval _ NaN = NaN"
| "divide_fval (Fin a) PInf = Fin 0"
| "divide_fval (Fin a) NInf = Fin 0"
| "divide_fval PInf (Fin b) = (if 0 \<le> b then PInf else NInf)"
| "divide_fval NInf (Fin b) = (if 0 \<le> b then NInf else PInf)"
| "divide_fval _ _ = NaN"

fun inverse_fval :: "fval \<Rightarrow> fval" where
  "inverse_fval (Fin a) = (if a = 0 then PInf else Fin (1 / a))"
| "inverse_fval PInf = Fin 0"
| "inverse_fval NInf = Fin 0"
| "inverse_fval NaN = NaN"

fun abs_fval :: "fval \<Rightarrow> fval" where
  "abs_fval (Fin a) = Fin \<bar>a\<bar>"
| "abs_fval PInf = PInf"
| "abs_fval NInf = PInf"
| "abs_fval NaN = NaN"

instance ..

end

text \<open>
  \<^verbatim>\<open>x < y\<close> on float64 values: every comparison with NaN is false.
\<close>

fun np_less :: "fval \<Rightarrow> fval \<Rightarrow> bool" where
  "np_less (Fin a) (Fin b) = (a < b)"
| "np_less NaN _ = False"
| "np_less _ NaN = False"
| "np_less NInf NInf = False"
| "np_less NInf _ = True"
| "np_less PInf _ = False"
| "np_less (Fin a) PInf = True"
| "np_less (Fin a) NInf = False"

text \<open>
  \<^verbatim>\<open>x == y\<close> on float64 values: NaN is equal to nothing, itself included.
\<close>

fun np_eq :: "fval \<Rightarrow> fval \<Rightarrow> bool" where
  "np_eq NaN _ = False"
| "np_eq _ NaN = False"
| "np_eq x y = (x = y)"

definition is_integer :: "real \<Rightarrow> bool" where
  "is_integer y = (y = of_int \<lfloor>y\<rfloor>)"

definition is_odd_integer :: "real \<Rightarrow> bool" where
  "is_odd_integer y = (is_integer y \<and> odd \<lfloor>y\<rfloor>)"

text \<open>
  \<^verbatim>\<open>x ** y\<close> for an array \<open>x\<close> and a finite Python scalar \<open>y\<close> (C's \<^verbatim>\<open>pow\<close>):
  anything to the power zero is one, zero to a negative power is infinite, a negative
  base with a fractional exponent is NaN.
\<close>

fun np_pow :: "fval \<Rightarrow> real \<Rightarrow> fval" where
  "np_pow (Fin r) y =
     (if y = 0 then Fin 1
      else if r = 0 then (if y < 0 then PInf else Fin 0)
      else if 0 < r then Fin (r powr y)
      else if is_integer y then Fin ((if is_odd_integer y then - 1 else 1) * ((- r) powr y))
      else NaN)"
| "np_pow PInf y = (if y = 0 then Fin 1 else if y < 0 then Fin 0 else PInf)"
| "np_pow NInf y =
     (if y = 0 then Fin 1 else if y < 0 then Fin 0
      else if is_odd_integer y then NInf else PInf)"
| "np_pow NaN y = (if y = 0 then Fin 1 else NaN)"

text \<open>\<^verbatim>\<open>np.isfinite\<close>: neither infinite nor NaN.\<close>

fun np_isfinite :: "fval \<Rightarrow> bool" where
  "np_isfinite (Fin r) = True"
| "np_isfinite _ = False"

text \<open>
  A finite float64 input keeps the sign bit of zero, which \<^verbatim>\<open>np.copysign\<close> reads:
  \<open>Val r\<close> is the number \<open>r\<close> (\<open>Val 0\<close> is \<open>+0.0\<close>) and \<open>NegZero\<close> is \<open>-0.0\<close>.
\<close>

datatype fin64 = Val real | NegZero

fun to_fval :: "fin64 \<Rightarrow> fval" where
  "to_fval (Val r) = Fin r"
| "to_fval NegZero = Fin 0"

fun signbit :: "fin64 \<Rightarrow> bool" where
  "signbit (Val r) = (r < 0)"
| "signbit NegZero = True"

fun fin_neg :: "fin64 \<Rightarrow> fin64" where
  "fin_neg (Val r) = (if r = 0 then NegZero else Val (- r))"
| "fin_neg NegZero = Val 0"

definition np_abs :: "fin64 \<Rightarrow> fval" where
  "np_abs x = \<bar>to_fval x\<bar>"

definition np_copysign_ones :: "fin64 \<Rightarrow> fval" where
  "np_copysign_ones x = (if signbit x then Fin (- 1) else Fin 1)"

section \<open>Arrays and the store\<close>

type_synonym vec = "fval list"
type_synonym mat = "fval list list"

definition fsum :: "vec \<Rightarrow> fval" where
  "fsum xs = foldr (+) xs (Fin 0)"

text \<open>\<^verbatim>\<open>np.dot(M, v)\<close> for a matrix and a vector, and for two matrices.\<close>

definition np_dot :: "mat \<Rightarrow> vec \<Rightarrow> vec" where
  "np_dot M v = map (\<lambda>row. fsum (map2 (*) row v)) M"

definition np_dot_mat :: "mat \<Rightarrow> mat \<Rightarrow> mat" where
  "np_dot_mat A B = map (\<lambda>row. map (\<lambda>col. fsum (map2 (*) row col)) (transpose B)) A"

text \<open>\<^verbatim>\<open>gradient_product(b, A) = np.einsum('ij,i->ij', A, b)\<close>, the same in both classes.\<close>

definition gradient_product :: "vec \<Rightarrow> mat \<Rightarrow> mat" where
  "gradient_product b A = map2 (\<lambda>row bi. map (\<lambda>a. a * bi) row) A b"

text \<open>
  Every NumPy array is an object of the store; an address is its index. A new array
  is appended, so its address is the length of the store before.
\<close>

datatype ndarray = Vec vec | Mat mat

type_synonym addr = nat
type_synonym heap = "ndarray list"

fun the_vec :: "ndarray \<Rightarrow> vec" where
  "the_vec (Vec v) = v"
| "the_vec (Mat M) = []"

fun the_mat :: "ndarray \<Rightarrow> mat" where
  "the_mat (Mat M) = M"
| "the_mat (Vec v) = []"

text \<open>\<^verbatim>\<open>a[:-2] = new\<close>, for \<open>new\<close> of the length of the slice.\<close>

definition assign_head :: "'a list \<Rightarrow> 'a list \<Rightarrow> 'a list" where
  "assign_head old new = new @ drop (length old - 2) old"

datatype py_error = ZeroDivisionError | ValueError | IndexError | KeyError

section \<open>The profile\<close>

text \<open>
  Modelled from the spec: the profile class is not part of \<^verbatim>\<open>models.py\<close>; these are
  the fields the two models read (GridProfile of the data model: \<open>D\<close> is \<open>N \<times> N\<close>,
  \<open>h\<close>, \<open>alpha\<close> and \<open>depth\<close> have length \<open>N\<close>, all entries finite).
\<close>

record profile =
  prof_N :: nat
  prof_D :: "real list list"
  prof_h :: "real list"
  prof_alpha :: "real list"
  prof_depth :: "real list"
  prof_rho_ice :: real
  prof_rho_water :: real

definition wf_profile :: "profile \<Rightarrow> bool" where
  "wf_profile p =
     (length (prof_D p) = prof_N p \<and> list_all (\<lambda>row. length row = prof_N p) (prof_D p) \<and>
      length (prof_h p) = prof_N p \<and> length (prof_alpha p) = prof_N p \<and>
      length (prof_depth p) = prof_N p)"

section \<open>Lines shared by the two classes\<close>

text \<open>
  The parameters (\<open>scale\<close>, \<open>A\<close>, \<open>n\<close>, \<open>m\<close>, \<open>W\<close>, \<open>As\<close>, \<open>mu\<close>, \<open>B2\<close>, the calving
  force) are finite numbers. Where the source divides two Python numbers
  (\<^verbatim>\<open>-1 / n\<close>, \<^verbatim>\<open>(n - 1) / n\<close>, \<^verbatim>\<open>1 / m\<close>, \<^verbatim>\<open>(1 - m) / m\<close>,
  \<^verbatim>\<open>self.rho_water / self.rho_ice\<close>) a zero divisor raises ZeroDivisionError; the
  methods below test for it first, since nothing is written to a buffer before. A
  division or a power with an array operand follows NumPy. \<^verbatim>\<open>A**(-1 / n)\<close> is taken
  as NumPy's power too: Python's float power has the same value for \<open>A > 0\<close>.
\<close>

text \<open>\<^verbatim>\<open>Du = np.dot(D, u)\<close>\<close>

definition strain_rate :: "profile \<Rightarrow> fin64 list \<Rightarrow> vec" where
  "strain_rate p u = np_dot (map (map Fin) (prof_D p)) (map to_fval u)"

text \<open>\<^verbatim>\<open>nu = A**(-1 / n) / (np.abs(Du)**((n - 1) / n) + self.nu_eps)\<close>, one entry.\<close>

definition viscosity :: "real \<Rightarrow> real \<Rightarrow> real \<Rightarrow> fval \<Rightarrow> fval" where
  "viscosity A n nu_eps d =
     np_pow (Fin A) (- 1 / n) / (np_pow \<bar>d\<bar> ((n - 1) / n) + Fin nu_eps)"

text \<open>\<^verbatim>\<open>membrane = scale * 2.0 * np.dot(D, h * nu * Du)\<close>\<close>

definition membrane_stress :: "profile \<Rightarrow> real \<Rightarrow> real \<Rightarrow> real \<Rightarrow> real \<Rightarrow> vec \<Rightarrow> vec" where
  "membrane_stress p A n nu_eps scale Du =
     (let nu = map (viscosity A n nu_eps) Du
      in map (\<lambda>x. Fin (scale * 2) * x)
           (np_dot (map (map Fin) (prof_D p))
              (map2 (*) (map2 (*) (map Fin (prof_h p)) nu) Du)))"

text \<open>\<^verbatim>\<open>Td = scale * self.rho_ice * g * h * alpha\<close>\<close>

definition driving_stress :: "profile \<Rightarrow> real \<Rightarrow> real \<Rightarrow> real \<Rightarrow> vec" where
  "driving_stress p rho_ice g scale =
     map2 (\<lambda>h a. Fin (scale * rho_ice * g) * Fin h * Fin a) (prof_h p) (prof_alpha p)"

text \<open>
  The membrane part of the Jacobian:
  \<^verbatim>\<open>nu = 1.0 / (np.abs(Du)**((n - 1) / n) + self.nu_eps)\<close>,
  \<^verbatim>\<open>nu_hat = (n - 1) / n * Du / (np.abs(Du)**((n + 1) / n) + self.nu_eps)\<close>,
  \<^verbatim>\<open>Gp = self.gradient_product(-1.0 * (nu**2) * nu_hat, D)\<close>,
  \<^verbatim>\<open>J1 = self.gradient_product(h * Du, Gp)\<close>, \<^verbatim>\<open>J2 = self.gradient_product(h * nu, D)\<close>,
  \<^verbatim>\<open>scale * np.dot(self.K, J1 + J2)\<close>.
\<close>

definition jac_nu :: "real \<Rightarrow> real \<Rightarrow> fval \<Rightarrow> fval" where
  "jac_nu n nu_eps d = Fin 1 / (np_pow \<bar>d\<bar> ((n - 1) / n) + Fin nu_eps)"

definition jac_nu_hat :: "real \<Rightarrow> real \<Rightarrow> fval \<Rightarrow> fval" where
  "jac_nu_hat n nu_eps d = Fin ((n - 1) / n) * d / (np_pow \<bar>d\<bar> ((n + 1) / n) + Fin nu_eps)"

definition membrane_jacobian :: "profile \<Rightarrow> mat \<Rightarrow> real \<Rightarrow> real \<Rightarrow> real \<Rightarrow> vec \<Rightarrow> mat" where
  "membrane_jacobian p K n nu_eps scale Du =
     (let D = map (map Fin) (prof_D p);
          h = map Fin (prof_h p);
          nu = map (jac_nu n nu_eps) Du;
          nu_hat = map (jac_nu_hat n nu_eps) Du;
          Gp = gradient_product (map2 (\<lambda>v w. Fin (- 1) * np_pow v 2 * w) nu nu_hat) D;
          J1 = gradient_product (map2 (*) h Du) Gp;
          J2 = gradient_product (map2 (*) h nu) D
      in map (map (\<lambda>x. Fin scale * x)) (np_dot_mat K (map2 (map2 (+)) J1 J2)))"

text \<open>The two boundary rows: \<^verbatim>\<open>boundary_value_scale * D[0,:]\<close> and \<^verbatim>\<open>... * D[-1,:]\<close>.\<close>

definition boundary_row :: "real \<Rightarrow> real list \<Rightarrow> vec" where
  "boundary_row bvs row = map (\<lambda>d. Fin bvs * Fin d) row"

section \<open>IceStream\<close>

record IceStream =
  is_profile :: profile
  is_A :: real
  is_g :: real
  is_B2 :: real
  is_n :: real
  is_m :: real
  is_rho_ice :: real
  is_rho_water :: real
  is_boundary_value_scale :: real
  is_nu_eps :: real
  is_fs :: real
  is_K :: addr
  is_F :: addr
  is_J :: addr

text \<open>
  \<^verbatim>\<open>__init__\<close>: \<^verbatim>\<open>-1 / n\<close> divides Python numbers and raises for \<open>n = 0\<close>; the
  arrays \<open>K\<close>, \<open>F\<close> and \<open>J\<close> are new objects, in this order.
\<close>

definition IceStream_init ::
  "profile \<Rightarrow> real \<Rightarrow> real \<Rightarrow> real \<Rightarrow> real \<Rightarrow> real \<Rightarrow> heap \<Rightarrow> py_error + (IceStream \<times> heap)" where
  "IceStream_init p calving_force A B2 n m hp =
     (if n = 0 then Inl ZeroDivisionError
      else
        let K = map (map (\<lambda>d. Fin 2 * Fin d * np_pow (Fin A) (- 1 / n))) (prof_D p);
            F = replicate (prof_N p + 2) (Fin 0);
            J = replicate (prof_N p + 2) (replicate (prof_N p) (Fin 0))
        in Inr (\<lparr>is_profile = p, is_A = A, is_g = 9.80665, is_B2 = B2, is_n = n, is_m = m,
                 is_rho_ice = prof_rho_ice p, is_rho_water = prof_rho_water p,
                 is_boundary_value_scale = 500, is_nu_eps = 1 / 10 ^ 8,
                 is_fs = calving_force,
                 is_K = length hp, is_F = length hp + 1, is_J = length hp + 2\<rparr>,
                hp @ [Mat K, Vec F, Mat J]))"

text \<open>
  \<^verbatim>\<open>compute_pde_values(self, u, scale)\<close>: \<^verbatim>\<open>np.dot\<close> raises ValueError for a \<open>u\<close>
  of another length than \<open>N\<close>, \<^verbatim>\<open>Du[0]\<close> raises IndexError on an empty grid (nothing
  has been written then: \<^verbatim>\<open>F[:-2]\<close> is empty). The result is the address of the copy
  and the new store.
\<close>

definition IceStream_compute_pde_values ::
  "IceStream \<Rightarrow> fin64 list \<Rightarrow> real \<Rightarrow> heap \<Rightarrow> py_error + (addr \<times> heap)" where
  "IceStream_compute_pde_values s u scale hp =
     (let p = is_profile s in
      if length u \<noteq> prof_N p then Inl ValueError
      else if is_n s = 0 then Inl ZeroDivisionError
      else
        let Du = strain_rate p u;
            membrane = membrane_stress p (is_A s) (is_n s) (is_nu_eps s) scale Du;
            drag = map (\<lambda>x. Fin (scale * is_B2 s) * to_fval x) u;
            Td = driving_stress p (is_rho_ice s) (is_g s) scale;
            F1 = assign_head (the_vec (hp ! is_F s)) (map2 (+) (map2 (-) membrane drag) Td)
        in if Du = [] then Inl IndexError
           else
             let F2 = F1[length F1 - 2 := Fin (is_boundary_value_scale s) * Du ! 0];
                 F3 = F2[length F2 - 1 :=
                        Fin (is_boundary_value_scale s) * (last Du - Fin (is_fs s))];
                 hp1 = hp[is_F s := Vec F3]
             in Inr (length hp1, hp1 @ [Vec F3]))"

text \<open>\<^verbatim>\<open>np.eye(N)\<close>\<close>

definition np_eye :: "nat \<Rightarrow> mat" where
  "np_eye k = map (\<lambda>i. map (\<lambda>j. if i = j then Fin 1 else Fin 0) [0..<k]) [0..<k]"

text \<open>
  \<^verbatim>\<open>compute_jacobian(self, u, scale)\<close> writes the buffer \<open>J\<close> and returns \<^verbatim>\<open>self.J\<close>
  itself.
\<close>

definition IceStream_compute_jacobian ::
  "IceStream \<Rightarrow> fin64 list \<Rightarrow> real \<Rightarrow> heap \<Rightarrow> py_error + (addr \<times> heap)" where
  "IceStream_compute_jacobian s u scale hp =
     (let p = is_profile s in
      if length u \<noteq> prof_N p then Inl ValueError
      else if is_n s = 0 then Inl ZeroDivisionError
      else
        let Du = strain_rate p u;
            J_membrane =
              membrane_jacobian p (the_mat (hp ! is_K s)) (is_n s) (is_nu_eps s) scale Du;
            J_drag = map (map (\<lambda>x. Fin (scale * is_B2 s) * x)) (np_eye (length u));
            J1 = assign_head (the_mat (hp ! is_J s)) (map2 (map2 (-)) J_membrane J_drag)
        in if prof_D p = [] then Inl IndexError
           else
             let J2 = J1[length J1 - 2 :=
                        boundary_row (is_boundary_value_scale s) (prof_D p ! 0)];
                 J3 = J2[length J2 - 1 :=
                        boundary_row (is_boundary_value_scale s) (last (prof_D p))]
             in Inr (is_J s, hp[is_J s := Mat J3]))"

section \<open>LateralIceStream\<close>

record LateralIceStream =
  ls_profile :: profile
  ls_W :: real
  ls_A :: real
  ls_g :: real
  ls_As :: real
  ls_mu :: real
  ls_n :: real
  ls_m :: real
  ls_rho_ice :: real
  ls_rho_water :: real
  ls_boundary_value_scale :: real
  ls_nu_eps :: real
  ls_drag_eps :: real
  ls_fs :: real
  ls_Hf :: addr
  ls_K :: addr
  ls_F :: addr
  ls_J :: addr

text \<open>
  \<^verbatim>\<open>self.Hf = profile.h - self.rho_water / self.rho_ice * profile.depth\<close> and
  \<^verbatim>\<open>self.Hf[self.Hf < 0.01] = 0.01\<close>; the quotient of the two densities is a
  division of Python numbers.
\<close>

definition flotation_height :: "profile \<Rightarrow> vec" where
  "flotation_height p =
     map2 (\<lambda>h d. Fin h - Fin (prof_rho_water p / prof_rho_ice p) * Fin d)
       (prof_h p) (prof_depth p)"

definition floor_Hf :: "vec \<Rightarrow> vec" where
  "floor_Hf Hf = map (\<lambda>x. if np_less x (Fin (1 / 100)) then Fin (1 / 100) else x) Hf"

definition LateralIceStream_init ::
  "profile \<Rightarrow> real \<Rightarrow> real \<Rightarrow> real \<Rightarrow> real \<Rightarrow> real \<Rightarrow> real \<Rightarrow> real \<Rightarrow> heap
     \<Rightarrow> py_error + (LateralIceStream \<times> heap)" where
  "LateralIceStream_init p calving_force A W As mu n m hp =
     (if prof_rho_ice p = 0 then Inl ZeroDivisionError
      else if n = 0 then Inl ZeroDivisionError
      else
        let Hf = floor_Hf (flotation_height p);
            K = map (map (\<lambda>d. Fin 2 * Fin d * np_pow (Fin A) (- 1 / n))) (prof_D p);
            F = replicate (prof_N p + 2) (Fin 0);
            J = replicate (prof_N p + 2) (replicate (prof_N p) (Fin 0))
        in Inr (\<lparr>ls_profile = p, ls_W = W, ls_A = A, ls_g = 9.80665, ls_As = As, ls_mu = mu,
                 ls_n = n, ls_m = m,
                 ls_rho_ice = prof_rho_ice p, ls_rho_water = prof_rho_water p,
                 ls_boundary_value_scale = 500, ls_nu_eps = 1 / 10 ^ 8,
                 ls_drag_eps = 1 / 10 ^ 3, ls_fs = calving_force,
                 ls_Hf = length hp, ls_K = length hp + 1, ls_F = length hp + 2,
                 ls_J = length hp + 3\<rparr>,
                hp @ [Vec Hf, Mat K, Vec F, Mat J]))"

text \<open>
  \<^verbatim>\<open>basal_drag = scale * usign * mu * As * (self.Hf * absu)**(1 / m)\<close> and
  \<^verbatim>\<open>lateral_drag = scale * 2 * usign * h / W * (5 * absu / (A * W))**(1 / n)\<close>.
\<close>

definition basal_drag :: "real \<Rightarrow> real \<Rightarrow> real \<Rightarrow> real \<Rightarrow> vec \<Rightarrow> fin64 list \<Rightarrow> vec" where
  "basal_drag scale mu As m Hf u =
     map2 (\<lambda>hf x. Fin scale * np_copysign_ones x * Fin mu * Fin As
                    * np_pow (hf * np_abs x) (1 / m)) Hf u"

definition lateral_drag :: "real \<Rightarrow> real \<Rightarrow> real \<Rightarrow> real \<Rightarrow> real list \<Rightarrow> fin64 list \<Rightarrow> vec" where
  "lateral_drag scale W A n h u =
     map2 (\<lambda>hi x. Fin (scale * 2) * np_copysign_ones x * Fin hi / Fin W
                    * np_pow (Fin 5 * np_abs x / Fin (A * W)) (1 / n)) h u"

text \<open>
  The result of \<^verbatim>\<open>compute_pde_values\<close>: the copy of the buffer, or the dictionary of
  the four component arrays.
\<close>

datatype pde_result = Residual addr | Components "(string \<times> addr) list"

definition LateralIceStream_compute_pde_values ::
  "LateralIceStream \<Rightarrow> fin64 list \<Rightarrow> real \<Rightarrow> bool \<Rightarrow> heap \<Rightarrow> py_error + (pde_result \<times> heap)" where
  "LateralIceStream_compute_pde_values s u scale return_components hp =
     (let p = ls_profile s in
      if length u \<noteq> prof_N p then Inl ValueError
      else if ls_n s = 0 then Inl ZeroDivisionError
      else if ls_m s = 0 then Inl ZeroDivisionError
      else
        let Du = strain_rate p u;
            membrane = membrane_stress p (ls_A s) (ls_n s) (ls_nu_eps s) scale Du;
            basal = basal_drag scale (ls_mu s) (ls_As s) (ls_m s) (the_vec (hp ! ls_Hf s)) u;
            lateral = lateral_drag scale (ls_W s) (ls_A s) (ls_n s) (prof_h p) u;
            Td = driving_stress p (ls_rho_ice s) (ls_g s) scale
        in if return_components then
             Inr (Components [(''membrane'', length hp), (''basal'', length hp + 1),
                              (''lateral'', length hp + 2), (''driving'', length hp + 3)],
                  hp @ [Vec membrane, Vec basal, Vec lateral, Vec Td])
           else
             let membrane' = map2 (-) membrane (map2 (+) basal lateral);
                 F1 = assign_head (the_vec (hp ! ls_F s)) (map2 (+) membrane' Td)
             in if Du = [] then Inl IndexError
                else
                  let F2 = F1[length F1 - 2 := Fin (ls_boundary_value_scale s) * Du ! 0];
                      F3 = F2[length F2 - 1 :=
                             Fin (ls_boundary_value_scale s) * (last Du - Fin (ls_fs s))];
                      hp1 = hp[ls_F s := Vec F3]
                  in Inr (Residual (length hp1), hp1 @ [Vec F3]))"

text \<open>
  The diagonal terms of the Jacobian:
  \<^verbatim>\<open>J_basal = scale * mu * usign * As * (self.Hf * usign) / m * (self.Hf * absu)**((1 - m) / m)\<close>,
  \<^verbatim>\<open>J_lateral = scale * usign * 10 * h * usign / (n * A * W**2) * (5 * absu / (A * W))**((1 - n) / n)\<close>.
\<close>

definition J_basal_entry :: "real \<Rightarrow> real \<Rightarrow> real \<Rightarrow> real \<Rightarrow> fval \<Rightarrow> fin64 \<Rightarrow> fval" where
  "J_basal_entry scale mu As m hf x =
     Fin (scale * mu) * np_copysign_ones x * Fin As * (hf * np_copysign_ones x) / Fin m
       * np_pow (hf * np_abs x) ((1 - m) / m)"

definition J_basal :: "real \<Rightarrow> real \<Rightarrow> real \<Rightarrow> real \<Rightarrow> vec \<Rightarrow> fin64 list \<Rightarrow> vec" where
  "J_basal scale mu As m Hf u = map2 (J_basal_entry scale mu As m) Hf u"

definition J_lateral :: "real \<Rightarrow> real \<Rightarrow> real \<Rightarrow> real \<Rightarrow> real list \<Rightarrow> fin64 list \<Rightarrow> vec" where
  "J_lateral scale W A n h u =
     map2 (\<lambda>hi x. Fin scale * np_copysign_ones x * Fin 10 * Fin hi * np_copysign_ones x
                    / Fin (n * A * W ^ 2)
                    * np_pow (Fin 5 * np_abs x / Fin (A * W)) ((1 - n) / n)) h u"

text \<open>\<^verbatim>\<open>Jpde[range(N), range(N)] -= v\<close> with \<^verbatim>\<open>N = u.size\<close>\<close>

definition sub_diag :: "nat \<Rightarrow> mat \<Rightarrow> vec \<Rightarrow> mat" where
  "sub_diag k M v = map (\<lambda>i. (M ! i)[i := M ! i ! i - v ! i]) [0..<k]"

definition LateralIceStream_compute_jacobian ::
  "LateralIceStream \<Rightarrow> fin64 list \<Rightarrow> real \<Rightarrow> heap \<Rightarrow> py_error + (addr \<times> heap)" where
  "LateralIceStream_compute_jacobian s u scale hp =
     (let p = ls_profile s in
      if length u \<noteq> prof_N p then Inl ValueError
      else if ls_n s = 0 then Inl ZeroDivisionError
      else if ls_m s = 0 then Inl ZeroDivisionError
      else
        let Du = strain_rate p u;
            Jpde = membrane_jacobian p (the_mat (hp ! ls_K s)) (ls_n s) (ls_nu_eps s) scale Du;
            Jb = J_basal scale (ls_mu s) (ls_As s) (ls_m s) (the_vec (hp ! ls_Hf s)) u;
            Jl = J_lateral scale (ls_W s) (ls_A s) (ls_n s) (prof_h p) u;
            Jpde' = sub_diag (length u) (sub_diag (length u) Jpde Jb) Jl;
            J1 = assign_head (the_mat (hp ! ls_J s)) Jpde'
        in if prof_D p = [] then Inl IndexError
           else
             let J2 = J1[length J1 - 2 :=
                        boundary_row (ls_boundary_value_scale s) (prof_D p ! 0)];
                 J3 = J2[length J2 - 1 :=
                        boundary_row (ls_boundary_value_scale s) (last (prof_D p))]
             in Inr (ls_J s, hp[ls_J s := Mat J3]))"

section \<open>Instances in a store, and sequences of calls\<close>

text \<open>
  What \<^verbatim>\<open>__init__\<close> establishes and every call keeps: the arrays of the instance are
  objects of the store, each of its own, the buffers have the shapes \<open>N + 2\<close> and
  \<open>(N + 2) \<times> N\<close>, and \<open>n\<close> is not zero.
\<close>

fun is_vec_of_length :: "nat \<Rightarrow> ndarray \<Rightarrow> bool" where
  "is_vec_of_length k (Vec v) = (length v = k)"
| "is_vec_of_length k (Mat M) = False"

fun is_mat_of_rows :: "nat \<Rightarrow> ndarray \<Rightarrow> bool" where
  "is_mat_of_rows k (Mat M) = (length M = k)"
| "is_mat_of_rows k (Vec v) = False"

definition is_inv :: "IceStream \<Rightarrow> heap \<Rightarrow> bool" where
  "is_inv s hp =
     (wf_profile (is_profile s) \<and> is_n s \<noteq> 0 \<and>
      is_K s < length hp \<and> is_F s < length hp \<and> is_J s < length hp \<and>
      distinct [is_K s, is_F s, is_J s] \<and>
      is_mat_of_rows (prof_N (is_profile s)) (hp ! is_K s) \<and>
      is_vec_of_length (prof_N (is_profile s) + 2) (hp ! is_F s) \<and>
      is_mat_of_rows (prof_N (is_profile s) + 2) (hp ! is_J s))"

fun at_least_floor :: "fval \<Rightarrow> bool" where
  "at_least_floor (Fin r) = (1 / 100 \<le> r)"
| "at_least_floor _ = False"

definition ls_inv :: "LateralIceStream \<Rightarrow> heap \<Rightarrow> bool" where
  "ls_inv s hp =
     (wf_profile (ls_profile s) \<and> ls_n s \<noteq> 0 \<and>
      ls_Hf s < length hp \<and> ls_K s < length hp \<and> ls_F s < length hp \<and> ls_J s < length hp \<and>
      distinct [ls_Hf s, ls_K s, ls_F s, ls_J s] \<and>
      is_vec_of_length (prof_N (ls_profile s)) (hp ! ls_Hf s) \<and>
      list_all at_least_floor (the_vec (hp ! ls_Hf s)) \<and>
      is_mat_of_rows (prof_N (ls_profile s)) (hp ! ls_K s) \<and>
      is_vec_of_length (prof_N (ls_profile s) + 2) (hp ! ls_F s) \<and>
      is_mat_of_rows (prof_N (ls_profile s) + 2) (hp ! ls_J s))"

text \<open>
  A call of a method, and the store after a sequence of calls on one instance. A call
  that raises leaves the store as it was. \<^verbatim>\<open>compute_numerical_jacobian\<close> hands
  \<^verbatim>\<open>compute_pde_values\<close> to numdifftools, which calls it some number of times: a
  sequence of residual calls.
\<close>

datatype is_call = IsPde "fin64 list" real | IsJac "fin64 list" real

datatype ls_call = LsPde "fin64 list" real bool | LsJac "fin64 list" real

fun is_step :: "IceStream \<Rightarrow> heap \<Rightarrow> is_call \<Rightarrow> heap" where
  "is_step s hp (IsPde u scale) =
     (case IceStream_compute_pde_values s u scale hp of Inl e \<Rightarrow> hp | Inr r \<Rightarrow> snd r)"
| "is_step s hp (IsJac u scale) =
     (case IceStream_compute_jacobian s u scale hp of Inl e \<Rightarrow> hp | Inr r \<Rightarrow> snd r)"

fun ls_step :: "LateralIceStream \<Rightarrow> heap \<Rightarrow> ls_call \<Rightarrow> heap" where
  "ls_step s hp (LsPde u scale rc) =
     (case LateralIceStream_compute_pde_values s u scale rc hp of Inl e \<Rightarrow> hp | Inr r \<Rightarrow> snd r)"
| "ls_step s hp (LsJac u scale) =
     (case LateralIceStream_compute_jacobian s u scale hp of Inl e \<Rightarrow> hp | Inr r \<Rightarrow> snd r)"

definition is_run :: "IceStream \<Rightarrow> heap \<Rightarrow> is_call list \<Rightarrow> heap" where
  "is_run s hp cs = foldl (is_step s) hp cs"

definition ls_run :: "LateralIceStream \<Rightarrow> heap \<Rightarrow> ls_call list \<Rightarrow> heap" where
  "ls_run s hp cs = foldl (ls_step s) hp cs"

text \<open>
  \<^verbatim>\<open>cdict[k]\<close>: the array a key of the component dictionary names; a key the
  dictionary lacks raises KeyError.
\<close>

definition component :: "heap \<Rightarrow> (string \<times> addr) list \<Rightarrow> string \<Rightarrow> py_error + vec" where
  "component hp cdict k =
     (case map_of cdict k of None \<Rightarrow> Inl KeyError | Some a \<Rightarrow> Inr (the_vec (hp ! a)))"

text \<open>
  The contents of the buffers after a call that returns, as functions of the arguments
  and of the arrays \<open>K\<close> and \<open>Hf\<close> of the instance: the same lines as in the methods,
  with the two boundary entries (rows) after the interior ones.
\<close>

definition IceStream_residual :: "IceStream \<Rightarrow> fin64 list \<Rightarrow> real \<Rightarrow> vec" where
  "IceStream_residual s u scale =
     (let p = is_profile s;
          Du = strain_rate p u;
          membrane = membrane_stress p (is_A s) (is_n s) (is_nu_eps s) scale Du;
          drag = map (\<lambda>x. Fin (scale * is_B2 s) * to_fval x) u;
          Td = driving_stress p (is_rho_ice s) (is_g s) scale
      in map2 (+) (map2 (-) membrane drag) Td
           @ [Fin (is_boundary_value_scale s) * Du ! 0,
              Fin (is_boundary_value_scale s) * (last Du - Fin (is_fs s))])"

definition IceStream_jacobian :: "IceStream \<Rightarrow> mat \<Rightarrow> fin64 list \<Rightarrow> real \<Rightarrow> mat" where
  "IceStream_jacobian s K u scale =
     (let p = is_profile s;
          Du = strain_rate p u;
          J_membrane = membrane_jacobian p K (is_n s) (is_nu_eps s) scale Du;
          J_drag = map (map (\<lambda>x. Fin (scale * is_B2 s) * x)) (np_eye (length u))
      in map2 (map2 (-)) J_membrane J_drag
           @ [boundary_row (is_boundary_value_scale s) (prof_D p ! 0),
              boundary_row (is_boundary_value_scale s) (last (prof_D p))])"

definition LateralIceStream_residual ::
  "LateralIceStream \<Rightarrow> vec \<Rightarrow> fin64 list \<Rightarrow> real \<Rightarrow> vec" where
  "LateralIceStream_residual s Hf u scale =
     (let p = ls_profile s;
          Du = strain_rate p u;
          membrane = membrane_stress p (ls_A s) (ls_n s) (ls_nu_eps s) scale Du;
          basal = basal_drag scale (ls_mu s) (ls_As s) (ls_m s) Hf u;
          lateral = lateral_drag scale (ls_W s) (ls_A s) (ls_n s) (prof_h p) u;
          Td = driving_stress p (ls_rho_ice s) (ls_g s) scale
      in map2 (+) (map2 (-) membrane (map2 (+) basal lateral)) Td
           @ [Fin (ls_boundary_value_scale s) * Du ! 0,
              Fin (ls_boundary_value_scale s) * (last Du - Fin (ls_fs s))])"

definition LateralIceStream_jacobian ::
  "LateralIceStream \<Rightarrow> mat \<Rightarrow> vec \<Rightarrow> fin64 list \<Rightarrow> real \<Rightarrow> mat" where
  "LateralIceStream_jacobian s K Hf u scale =
     (let p = ls_profile s;
          Du = strain_rate p u;
          Jpde = membrane_jacobian p K (ls_n s) (ls_nu_eps s) scale Du;
          Jb = J_basal scale (ls_mu s) (ls_As s) (ls_m s) Hf u;
          Jl = J_lateral scale (ls_W s) (ls_A s) (ls_n s) (prof_h p) u
      in sub_diag (length u) (sub_diag (length u) Jpde Jb) Jl
           @ [boundary_row (ls_boundary_value_scale s) (prof_D p ! 0),
              boundary_row (ls_boundary_value_scale s) (last (prof_D p))])"

section \<open>A two-node example\<close>

definition ex_profile :: profile where
  "ex_profile =
     \<lparr>prof_N = 2, prof_D = [[- 1, 1], [- 1, 1]], prof_h = [1000, 1000],
      prof_alpha = [1 / 100, 1 / 100], prof_depth = [100, 2000],
      prof_rho_ice = 917, prof_rho_water = 1000\<rparr>"

definition ex_is :: IceStream where
  "ex_is =
     \<lparr>is_profile = ex_profile, is_A = 1, is_g = 9.80665, is_B2 = 600, is_n = 3, is_m = 1,
      is_rho_ice = 917, is_rho_water = 1000, is_boundary_value_scale = 500,
      is_nu_eps = 1 / 10 ^ 8, is_fs = 0, is_K = 0, is_F = 1, is_J = 2\<rparr>"

definition ex_is_heap :: heap where
  "ex_is_heap =
     [Mat (map (map (\<lambda>d. Fin 2 * Fin d * np_pow (Fin 1) (- 1 / 3))) (prof_D ex_profile)),
      Vec (replicate 4 (Fin 0)), Mat (replicate 4 (replicate 2 (Fin 0)))]"

definition ex_ls :: LateralIceStream where
  "ex_ls =
     \<lparr>ls_profile = ex_profile, ls_W = 3000, ls_A = 1, ls_g = 9.80665, ls_As = 100, ls_mu = 1,
      ls_n = 3, ls_m = 3, ls_rho_ice = 917, ls_rho_water = 1000,
      ls_boundary_value_scale = 500, ls_nu_eps = 1 / 10 ^ 8, ls_drag_eps = 1 / 10 ^ 3,
      ls_fs = 0, ls_Hf = 0, ls_K = 1, ls_F = 2, ls_J = 3\<rparr>"

text \<open>The same instance made with \<^verbatim>\<open>mu=0\<close> and \<^verbatim>\<open>m=-1\<close>.\<close>

definition ex_ls0 :: LateralIceStream where
  "ex_ls0 = ex_ls\<lparr>ls_mu := 0, ls_m := - 1\<rparr>"

definition ex_ls_heap :: heap where
  "ex_ls_heap =
     [Vec (floor_Hf (flotation_height ex_profile)),
      Mat (map (map (\<lambda>d. Fin 2 * Fin d * np_pow (Fin 1) (- 1 / 3))) (prof_D ex_profile)),
      Vec (replicate 4 (Fin 0)), Mat (replicate 4 (replicate 2 (Fin 0)))]"


section \<open>Arithmetic of float64 values\<close>

lemma fval_mult_neg_left: "(- a) * b = - (a * (b::fval))"
  by (cases a; cases b) (simp_all add: not_less)

lemma fval_mult_neg_right: "a * (- b) = - (a * (b::fval))"
  by (cases a; cases b) (simp_all add: not_less)

lemma fval_div_neg_left: "(- a) / b = - (a / (b::fval))"
  by (cases a; cases b) (simp_all add: not_less)

lemma np_copysign_ones_neg: "np_copysign_ones (fin_neg x) = - np_copysign_ones x"
  by (cases x) (auto simp: np_copysign_ones_def)

lemma np_abs_neg: "np_abs (fin_neg x) = np_abs x"
  by (cases x) (auto simp: np_abs_def)

lemma np_copysign_ones_square: "np_copysign_ones x * np_copysign_ones x = Fin 1"
  by (simp add: np_copysign_ones_def)

lemma np_eq_same: "x \<noteq> NaN \<Longrightarrow> np_eq x x"
  by (cases x) simp_all

lemma np_eq_NaN: "\<not> np_eq x NaN"
  by (cases x) simp_all


lemma fval_neg_NaN: "(- x = NaN) = (x = (NaN::fval))"
  by (cases x) simp_all

lemma fval_mult_one: "x * Fin 1 = (x::fval)" "x * Fin (- 1) = - x"
  by (cases x; simp)+

lemma fval_neg_neg: "- (- x) = (x::fval)"
  by (cases x) simp_all

section \<open>Shapes\<close>

lemma two_list: "length (ys::'a list) = 2 \<Longrightarrow> \<exists>x y. ys = [x, y]"
  by (cases ys; cases "tl ys") auto

lemma assign_head_buffer:
  assumes "length old = length new + 2"
  shows "((assign_head old new)[length (assign_head old new) - 2 := a])
            [length ((assign_head old new)[length (assign_head old new) - 2 := a]) - 1 := b]
         = new @ [a, b]"
proof -
  have "length (drop (length new) old) = 2" using assms by simp
  then obtain x y where d: "drop (length new) old = [x, y]"
    using two_list by blast
  have ah: "assign_head old new = new @ [x, y]"
    using assms d by (simp add: assign_head_def)
  show ?thesis
    unfolding ah by (simp add: list_update_append)
qed

lemma is_vec_of_lengthD: "is_vec_of_length k a \<Longrightarrow> \<exists>v. a = Vec v \<and> length v = k"
  by (cases a) simp_all

lemma is_mat_of_rowsD: "is_mat_of_rows k a \<Longrightarrow> \<exists>M. a = Mat M \<and> length M = k"
  by (cases a) simp_all

lemma length_strain_rate: "length (strain_rate p u) = length (prof_D p)"
  by (simp add: strain_rate_def np_dot_def)

lemma length_membrane_stress: "length (membrane_stress p A n e sc Du) = length (prof_D p)"
  by (simp add: membrane_stress_def np_dot_def)

lemma length_driving_stress:
  "length (driving_stress p r g sc) = min (length (prof_h p)) (length (prof_alpha p))"
  by (simp add: driving_stress_def)

lemma length_basal_drag: "length (basal_drag sc mu As m Hf u) = min (length Hf) (length u)"
  by (simp add: basal_drag_def)

lemma length_lateral_drag: "length (lateral_drag sc W A n h u) = min (length h) (length u)"
  by (simp add: lateral_drag_def)

lemma length_membrane_jacobian: "length (membrane_jacobian p K n e sc Du) = length K"
  by (simp add: membrane_jacobian_def np_dot_mat_def Let_def)

lemma length_np_eye: "length (np_eye k) = k"
  by (simp add: np_eye_def)

lemma length_sub_diag: "length (sub_diag k M v) = k"
  by (simp add: sub_diag_def)

lemma length_IceStream_residual:
  assumes "wf_profile (is_profile s)" "length u = prof_N (is_profile s)"
  shows "length (IceStream_residual s u sc) = prof_N (is_profile s) + 2"
  using assms
  by (simp add: IceStream_residual_def Let_def wf_profile_def length_membrane_stress
      length_driving_stress)

lemma length_LateralIceStream_residual:
  assumes "wf_profile (ls_profile s)" "length u = prof_N (ls_profile s)"
    "length Hf = prof_N (ls_profile s)"
  shows "length (LateralIceStream_residual s Hf u sc) = prof_N (ls_profile s) + 2"
  using assms
  by (simp add: LateralIceStream_residual_def Let_def wf_profile_def length_membrane_stress
      length_driving_stress length_basal_drag length_lateral_drag)

lemma length_IceStream_jacobian:
  assumes "length K = prof_N (is_profile s)" "length u = prof_N (is_profile s)"
  shows "length (IceStream_jacobian s K u sc) = prof_N (is_profile s) + 2"
  using assms
  by (simp add: IceStream_jacobian_def Let_def length_membrane_jacobian length_np_eye)

lemma length_LateralIceStream_jacobian:
  assumes "length u = prof_N (ls_profile s)"
  shows "length (LateralIceStream_jacobian s K Hf u sc) = prof_N (ls_profile s) + 2"
  using assms
  by (simp add: LateralIceStream_jacobian_def Let_def length_sub_diag)

section \<open>What a call returns\<close>

lemma is_pde_call:
  assumes "is_inv s hp" "length u = prof_N (is_profile s)" "0 < prof_N (is_profile s)"
  shows "IceStream_compute_pde_values s u scale hp =
           Inr (length hp, hp[is_F s := Vec (IceStream_residual s u scale)]
                             @ [Vec (IceStream_residual s u scale)])"
proof -
  define p where "p = is_profile s"
  define Du where "Du = strain_rate p u"
  define new where "new = map2 (+) (map2 (-) (membrane_stress p (is_A s) (is_n s) (is_nu_eps s) scale Du)
       (map (\<lambda>x. Fin (scale * is_B2 s) * to_fval x) u))
       (driving_stress p (is_rho_ice s) (is_g s) scale)"
  define a where "a = Fin (is_boundary_value_scale s) * Du ! 0"
  define b where "b = Fin (is_boundary_value_scale s) * (last Du - Fin (is_fs s))"
  define F1 where "F1 = assign_head (the_vec (hp ! is_F s)) new"
  from assms(1) have wf: "wf_profile p" and n: "is_n s \<noteq> 0"
    and F: "is_vec_of_length (prof_N p + 2) (hp ! is_F s)"
    by (simp_all add: is_inv_def p_def)
  from F obtain f where f: "hp ! is_F s = Vec f" "length f = prof_N p + 2"
    using is_vec_of_lengthD by blast
  from wf have lens: "length (prof_D p) = prof_N p" "length (prof_h p) = prof_N p"
    "length (prof_alpha p) = prof_N p"
    by (simp_all add: wf_profile_def)
  have Du: "Du \<noteq> []"
    using length_strain_rate[of p u] lens assms(3) by (auto simp: Du_def p_def)
  have lu: "length u = prof_N p" using assms(2) by (simp add: p_def)
  have len: "length (the_vec (hp ! is_F s)) = length new + 2"
    using f lens lu by (simp add: new_def length_membrane_stress length_driving_stress)
  have F3: "(F1[length F1 - 2 := a])[length (F1[length F1 - 2 := a]) - 1 := b] = new @ [a, b]"
    unfolding F1_def by (rule assign_head_buffer[OF len])
  have res: "IceStream_residual s u scale = new @ [a, b]"
    by (simp add: IceStream_residual_def Let_def new_def a_def b_def Du_def p_def)
  have "IceStream_compute_pde_values s u scale hp =
      Inr (length (hp[is_F s := Vec ((F1[length F1 - 2 := a])[length (F1[length F1 - 2 := a]) - 1 := b])]),
           hp[is_F s := Vec ((F1[length F1 - 2 := a])[length (F1[length F1 - 2 := a]) - 1 := b])]
             @ [Vec ((F1[length F1 - 2 := a])[length (F1[length F1 - 2 := a]) - 1 := b])])"
    unfolding IceStream_compute_pde_values_def Let_def
    using lu n Du
    by (simp only: p_def[symmetric] Du_def[symmetric] new_def[symmetric] a_def[symmetric]
         b_def[symmetric] F1_def[symmetric] if_False if_True simp_thms)
  then show ?thesis
    using F3 by (simp add: res)
qed

lemma ls_pde_call:
  assumes "ls_inv s hp" "length u = prof_N (ls_profile s)" "0 < prof_N (ls_profile s)"
    "ls_m s \<noteq> 0"
  shows "LateralIceStream_compute_pde_values s u scale False hp =
           Inr (Residual (length hp),
                hp[ls_F s := Vec (LateralIceStream_residual s (the_vec (hp ! ls_Hf s)) u scale)]
                  @ [Vec (LateralIceStream_residual s (the_vec (hp ! ls_Hf s)) u scale)])"
proof -
  define p where "p = ls_profile s"
  define Du where "Du = strain_rate p u"
  define Hf where "Hf = the_vec (hp ! ls_Hf s)"
  define new where "new = map2 (+) (map2 (-) (membrane_stress p (ls_A s) (ls_n s) (ls_nu_eps s) scale Du)
       (map2 (+) (basal_drag scale (ls_mu s) (ls_As s) (ls_m s) Hf u)
                 (lateral_drag scale (ls_W s) (ls_A s) (ls_n s) (prof_h p) u)))
       (driving_stress p (ls_rho_ice s) (ls_g s) scale)"
  define a where "a = Fin (ls_boundary_value_scale s) * Du ! 0"
  define b where "b = Fin (ls_boundary_value_scale s) * (last Du - Fin (ls_fs s))"
  define F1 where "F1 = assign_head (the_vec (hp ! ls_F s)) new"
  from assms(1) have wf: "wf_profile p" and n: "ls_n s \<noteq> 0"
    and F: "is_vec_of_length (prof_N p + 2) (hp ! ls_F s)"
    and H: "is_vec_of_length (prof_N p) (hp ! ls_Hf s)"
    by (simp_all add: ls_inv_def p_def)
  from F obtain f where f: "hp ! ls_F s = Vec f" "length f = prof_N p + 2"
    using is_vec_of_lengthD by blast
  from H have lH: "length Hf = prof_N p"
    using is_vec_of_lengthD Hf_def by fastforce
  from wf have lens: "length (prof_D p) = prof_N p" "length (prof_h p) = prof_N p"
    "length (prof_alpha p) = prof_N p"
    by (simp_all add: wf_profile_def)
  have Du: "Du \<noteq> []"
    using length_strain_rate[of p u] lens assms(3) by (auto simp: Du_def p_def)
  have lu: "length u = prof_N p" using assms(2) by (simp add: p_def)
  have len: "length (the_vec (hp ! ls_F s)) = length new + 2"
    using f lens lu lH
    by (simp add: new_def length_membrane_stress length_driving_stress length_basal_drag
        length_lateral_drag)
  have F3: "(F1[length F1 - 2 := a])[length (F1[length F1 - 2 := a]) - 1 := b] = new @ [a, b]"
    unfolding F1_def by (rule assign_head_buffer[OF len])
  have res: "LateralIceStream_residual s Hf u scale = new @ [a, b]"
    by (simp add: LateralIceStream_residual_def Let_def new_def a_def b_def Du_def p_def)
  have "LateralIceStream_compute_pde_values s u scale False hp =
      Inr (Residual (length (hp[ls_F s := Vec ((F1[length F1 - 2 := a])[length (F1[length F1 - 2 := a]) - 1 := b])])),
           hp[ls_F s := Vec ((F1[length F1 - 2 := a])[length (F1[length F1 - 2 := a]) - 1 := b])]
             @ [Vec ((F1[length F1 - 2 := a])[length (F1[length F1 - 2 := a]) - 1 := b])])"
    unfolding LateralIceStream_compute_pde_values_def Let_def
    using lu n Du assms(4)
    by (simp only: p_def[symmetric] Du_def[symmetric] Hf_def[symmetric] new_def[symmetric]
         a_def[symmetric] b_def[symmetric] F1_def[symmetric] if_False if_True simp_thms)
  then show ?thesis
    using F3 by (simp add: res[unfolded Hf_def])
qed

lemma ls_components_call:
  assumes "length u = prof_N (ls_profile s)" "ls_n s \<noteq> 0" "ls_m s \<noteq> 0"
  shows "LateralIceStream_compute_pde_values s u scale True hp =
           Inr (Components [(''membrane'', length hp), (''basal'', length hp + 1),
                            (''lateral'', length hp + 2), (''driving'', length hp + 3)],
                hp @ [Vec (membrane_stress (ls_profile s) (ls_A s) (ls_n s) (ls_nu_eps s) scale
                             (strain_rate (ls_profile s) u)),
                      Vec (basal_drag scale (ls_mu s) (ls_As s) (ls_m s) (the_vec (hp ! ls_Hf s)) u),
                      Vec (lateral_drag scale (ls_W s) (ls_A s) (ls_n s) (prof_h (ls_profile s)) u),
                      Vec (driving_stress (ls_profile s) (ls_rho_ice s) (ls_g s) scale)])"
  unfolding LateralIceStream_compute_pde_values_def Let_def
  using assms by (simp only: if_False if_True simp_thms)


section \<open>The example instances\<close>

lemma ex_is_init: "IceStream_init ex_profile 0 1 600 3 1 [] = Inr (ex_is, ex_is_heap)"
  by (simp add: IceStream_init_def ex_is_def ex_is_heap_def ex_profile_def)

lemma ex_ls_init:
  "LateralIceStream_init ex_profile 0 1 3000 100 1 3 3 [] = Inr (ex_ls, ex_ls_heap)"
  by (simp add: LateralIceStream_init_def ex_ls_def ex_ls_heap_def ex_profile_def)

lemma ex_wf_profile: "wf_profile ex_profile"
  by (simp add: wf_profile_def ex_profile_def)

lemma ex_is_inv: "is_inv ex_is ex_is_heap"
  using ex_wf_profile by (simp add: is_inv_def ex_is_def ex_is_heap_def ex_profile_def)

lemma ex_Hf: "floor_Hf (flotation_height ex_profile) = [Fin (817000 / 917), Fin (1 / 100)]"
  by (simp add: floor_Hf_def flotation_height_def ex_profile_def minus_fval_def)

lemma ex_ls_inv: "ls_inv ex_ls ex_ls_heap"
  using ex_wf_profile by (simp add: ls_inv_def ex_ls_def ex_ls_heap_def ex_Hf) (simp add: ex_profile_def)

lemma ex_ls0_init:
  "LateralIceStream_init ex_profile 0 1 3000 100 0 3 (- 1) [] = Inr (ex_ls0, ex_ls_heap)"
  by (simp add: LateralIceStream_init_def ex_ls0_def ex_ls_def ex_ls_heap_def ex_profile_def)


lemma ex_ls0_basal_nan:
  "basal_drag (1 / 100) (ls_mu ex_ls0) (ls_As ex_ls0) (ls_m ex_ls0)
     (the_vec (ex_ls_heap ! ls_Hf ex_ls0)) [Val 0, Val 1] ! 0 = NaN"
  by (simp add: basal_drag_def ex_ls0_def ex_ls_def ex_ls_heap_def ex_Hf np_copysign_ones_def
      np_abs_def)


lemma ex_ls_drags_finite:
  "basal_drag (1 / 100) (ls_mu ex_ls) (ls_As ex_ls) (ls_m ex_ls)
          (the_vec (ex_ls_heap ! ls_Hf ex_ls)) [Val 1, Val 3] ! 0 \<noteq> NaN \<and>
   lateral_drag (1 / 100) (ls_W ex_ls) (ls_A ex_ls) (ls_n ex_ls)
          (prof_h (ls_profile ex_ls)) [Val 1, Val 3] ! 0 \<noteq> NaN"
proof -
  have Hf: "the_vec (ex_ls_heap ! ls_Hf ex_ls) = [Fin (817000 / 917), Fin (1 / 100)]"
    by (simp add: ex_ls_def ex_ls_heap_def ex_Hf)
  show ?thesis
    unfolding Hf
    by (simp add: basal_drag_def lateral_drag_def ex_ls_def ex_profile_def
        np_copysign_ones_def np_abs_def)
qed

section \<open>Boundary entries\<close>

lemma IceStream_residual_boundary:
  assumes "wf_profile (is_profile s)" "length u = prof_N (is_profile s)"
    "0 < prof_N (is_profile s)"
  shows "IceStream_residual s u sc ! prof_N (is_profile s) =
           Fin (is_boundary_value_scale s) * strain_rate (is_profile s) u ! 0"
    and "IceStream_residual s u sc ! (prof_N (is_profile s) + 1) =
           Fin (is_boundary_value_scale s)
             * (strain_rate (is_profile s) u ! (prof_N (is_profile s) - 1) - Fin (is_fs s))"
proof -
  let ?p = "is_profile s"
  have l: "length (strain_rate ?p u) = prof_N ?p"
    using assms(1) by (simp add: length_strain_rate wf_profile_def)
  then have ne: "strain_rate ?p u \<noteq> []" using assms(3) by auto
  have lst: "last (strain_rate ?p u) = strain_rate ?p u ! (prof_N ?p - 1)"
    using last_conv_nth[OF ne] l by simp
  have len: "length (map2 (+) (map2 (-) (membrane_stress ?p (is_A s) (is_n s) (is_nu_eps s) sc
       (strain_rate ?p u)) (map (\<lambda>x. Fin (sc * is_B2 s) * to_fval x) u))
       (driving_stress ?p (is_rho_ice s) (is_g s) sc)) = prof_N ?p"
    using assms(1,2) by (simp add: wf_profile_def length_membrane_stress length_driving_stress)
  show "IceStream_residual s u sc ! prof_N ?p =
           Fin (is_boundary_value_scale s) * strain_rate ?p u ! 0"
    unfolding IceStream_residual_def Let_def using len by (simp add: nth_append)
  show "IceStream_residual s u sc ! (prof_N ?p + 1) =
           Fin (is_boundary_value_scale s) * (strain_rate ?p u ! (prof_N ?p - 1) - Fin (is_fs s))"
    unfolding IceStream_residual_def Let_def using len lst by (simp add: nth_append)
qed

lemma LateralIceStream_residual_boundary:
  assumes "wf_profile (ls_profile s)" "length u = prof_N (ls_profile s)"
    "0 < prof_N (ls_profile s)" "length Hf = prof_N (ls_profile s)"
  shows "LateralIceStream_residual s Hf u sc ! prof_N (ls_profile s) =
           Fin (ls_boundary_value_scale s) * strain_rate (ls_profile s) u ! 0"
    and "LateralIceStream_residual s Hf u sc ! (prof_N (ls_profile s) + 1) =
           Fin (ls_boundary_value_scale s)
             * (strain_rate (ls_profile s) u ! (prof_N (ls_profile s) - 1) - Fin (ls_fs s))"
proof -
  let ?p = "ls_profile s"
  have l: "length (strain_rate ?p u) = prof_N ?p"
    using assms(1) by (simp add: length_strain_rate wf_profile_def)
  then have ne: "strain_rate ?p u \<noteq> []" using assms(3) by auto
  have lst: "last (strain_rate ?p u) = strain_rate ?p u ! (prof_N ?p - 1)"
    using last_conv_nth[OF ne] l by simp
  have len: "length (map2 (+) (map2 (-) (membrane_stress ?p (ls_A s) (ls_n s) (ls_nu_eps s) sc
       (strain_rate ?p u))
       (map2 (+) (basal_drag sc (ls_mu s) (ls_As s) (ls_m s) Hf u)
                 (lateral_drag sc (ls_W s) (ls_A s) (ls_n s) (prof_h ?p) u)))
       (driving_stress ?p (ls_rho_ice s) (ls_g s) sc)) = prof_N ?p"
    using assms(1,2,4)
    by (simp add: wf_profile_def length_membrane_stress length_driving_stress
        length_basal_drag length_lateral_drag)
  show "LateralIceStream_residual s Hf u sc ! prof_N ?p =
           Fin (ls_boundary_value_scale s) * strain_rate ?p u ! 0"
    unfolding LateralIceStream_residual_def Let_def using len by (simp add: nth_append)
  show "LateralIceStream_residual s Hf u sc ! (prof_N ?p + 1) =
           Fin (ls_boundary_value_scale s) * (strain_rate ?p u ! (prof_N ?p - 1) - Fin (ls_fs s))"
    unfolding LateralIceStream_residual_def Let_def using len lst by (simp add: nth_append)
qed

lemma ls_inv_Hf_length:
  "ls_inv s hp \<Longrightarrow> length (the_vec (hp ! ls_Hf s)) = prof_N (ls_profile s)"
  using is_vec_of_lengthD by (fastforce simp: ls_inv_def)

text \<open>
  C3. For both models and every velocity vector \<open>u\<close> of length \<open>N\<close> (on a grid with
  at least one node), the residual call returns a vector whose entry \<open>N\<close> is
  \<open>boundary_value_scale \<cdot> (D\<cdot>u)[0]\<close> and whose entry \<open>N + 1\<close> is
  \<open>boundary_value_scale \<cdot> ((D\<cdot>u)[N - 1] - fs)\<close>.
\<close>

theorem residual_boundary_entries:
  assumes "is_inv s hp" "length u = prof_N (is_profile s)" "0 < prof_N (is_profile s)"
    and "ls_inv t hq" "length v = prof_N (ls_profile t)" "0 < prof_N (ls_profile t)"
    and "ls_m t \<noteq> 0"
  shows "(\<exists>r hp'. IceStream_compute_pde_values s u scale hp = Inr (r, hp') \<and>
            the_vec (hp' ! r) ! prof_N (is_profile s) =
              Fin (is_boundary_value_scale s)
                * np_dot (map (map Fin) (prof_D (is_profile s))) (map to_fval u) ! 0 \<and>
            the_vec (hp' ! r) ! (prof_N (is_profile s) + 1) =
              Fin (is_boundary_value_scale s)
                * (np_dot (map (map Fin) (prof_D (is_profile s))) (map to_fval u)
                     ! (prof_N (is_profile s) - 1) - Fin (is_fs s)))
       \<and> (\<exists>r hq'. LateralIceStream_compute_pde_values t v scale' False hq
                     = Inr (Residual r, hq') \<and>
            the_vec (hq' ! r) ! prof_N (ls_profile t) =
              Fin (ls_boundary_value_scale t)
                * np_dot (map (map Fin) (prof_D (ls_profile t))) (map to_fval v) ! 0 \<and>
            the_vec (hq' ! r) ! (prof_N (ls_profile t) + 1) =
              Fin (ls_boundary_value_scale t)
                * (np_dot (map (map Fin) (prof_D (ls_profile t))) (map to_fval v)
                     ! (prof_N (ls_profile t) - 1) - Fin (ls_fs t)))"
proof (rule conjI)
  have wf: "wf_profile (is_profile s)" using assms(1) by (simp add: is_inv_def)
  show "\<exists>r hp'. IceStream_compute_pde_values s u scale hp = Inr (r, hp') \<and>
            the_vec (hp' ! r) ! prof_N (is_profile s) =
              Fin (is_boundary_value_scale s)
                * np_dot (map (map Fin) (prof_D (is_profile s))) (map to_fval u) ! 0 \<and>
            the_vec (hp' ! r) ! (prof_N (is_profile s) + 1) =
              Fin (is_boundary_value_scale s)
                * (np_dot (map (map Fin) (prof_D (is_profile s))) (map to_fval u)
                     ! (prof_N (is_profile s) - 1) - Fin (is_fs s))"
    using is_pde_call[OF assms(1-3), of scale]
      IceStream_residual_boundary[OF wf assms(2,3), of scale]
    by (simp add: strain_rate_def nth_append)
next
  have wf: "wf_profile (ls_profile t)" using assms(4) by (simp add: ls_inv_def)
  show "\<exists>r hq'. LateralIceStream_compute_pde_values t v scale' False hq
                     = Inr (Residual r, hq') \<and>
            the_vec (hq' ! r) ! prof_N (ls_profile t) =
              Fin (ls_boundary_value_scale t)
                * np_dot (map (map Fin) (prof_D (ls_profile t))) (map to_fval v) ! 0 \<and>
            the_vec (hq' ! r) ! (prof_N (ls_profile t) + 1) =
              Fin (ls_boundary_value_scale t)
                * (np_dot (map (map Fin) (prof_D (ls_profile t))) (map to_fval v)
                     ! (prof_N (ls_profile t) - 1) - Fin (ls_fs t))"
    using ls_pde_call[OF assms(4-7), of scale']
      LateralIceStream_residual_boundary[OF wf assms(5,6) ls_inv_Hf_length[OF assms(4)], of scale']
    by (simp add: strain_rate_def nth_append)
qed

theorem residual_boundary_entries_witness:
  "is_inv ex_is ex_is_heap \<and> length [Val 1, Val 3] = prof_N (is_profile ex_is) \<and>
   0 < prof_N (is_profile ex_is) \<and> ls_inv ex_ls ex_ls_heap \<and>
   length [Val 1, Val 3] = prof_N (ls_profile ex_ls) \<and> 0 < prof_N (ls_profile ex_ls) \<and>
   ls_m ex_ls \<noteq> 0 \<and>
   (\<exists>r hp'. IceStream_compute_pde_values ex_is [Val 1, Val 3] (1 / 100) ex_is_heap = Inr (r, hp') \<and>
       the_vec (hp' ! r) ! 2 = Fin 500 * Fin 2 \<and>
       the_vec (hp' ! r) ! 3 = Fin 500 * (Fin 2 - Fin 0)) \<and>
   (\<exists>r hq'. LateralIceStream_compute_pde_values ex_ls [Val 1, Val 3] (1 / 100) False ex_ls_heap
               = Inr (Residual r, hq') \<and>
       the_vec (hq' ! r) ! 2 = Fin 500 * Fin 2 \<and>
       the_vec (hq' ! r) ! 3 = Fin 500 * (Fin 2 - Fin 0))"
proof -
  have h1: "length [Val 1, Val 3] = prof_N (is_profile ex_is)" "0 < prof_N (is_profile ex_is)"
    by (simp_all add: ex_is_def ex_profile_def)
  have h2: "length [Val 1, Val 3] = prof_N (ls_profile ex_ls)" "0 < prof_N (ls_profile ex_ls)"
    "ls_m ex_ls \<noteq> 0"
    by (simp_all add: ex_ls_def ex_profile_def)
  have d1: "np_dot (map (map Fin) (prof_D ex_profile)) [Fin 1, Fin 3] = [Fin 2, Fin 2]"
    by (simp add: np_dot_def fsum_def ex_profile_def)
  have p: "is_profile ex_is = ex_profile" "ls_profile ex_ls = ex_profile"
    "is_boundary_value_scale ex_is = 500" "ls_boundary_value_scale ex_ls = 500"
    "is_fs ex_is = 0" "ls_fs ex_ls = 0" "prof_N ex_profile = 2"
    by (simp_all add: ex_is_def ex_ls_def ex_profile_def)
  show ?thesis
    using residual_boundary_entries[OF ex_is_inv h1 ex_ls_inv h2, of "1 / 100" "1 / 100"]
      ex_is_inv ex_ls_inv h1 h2
    by (simp add: p d1)
qed


lemma is_jac_call:
  assumes "is_inv s hp" "length u = prof_N (is_profile s)" "0 < prof_N (is_profile s)"
  shows "IceStream_compute_jacobian s u scale hp =
           Inr (is_J s, hp[is_J s := Mat (IceStream_jacobian s (the_mat (hp ! is_K s)) u scale)])"
proof -
  define p where "p = is_profile s"
  define Du where "Du = strain_rate p u"
  define K where "K = the_mat (hp ! is_K s)"
  define new where "new = map2 (map2 (-)) (membrane_jacobian p K (is_n s) (is_nu_eps s) scale Du)
       (map (map (\<lambda>x. Fin (scale * is_B2 s) * x)) (np_eye (length u)))"
  define a where "a = boundary_row (is_boundary_value_scale s) (prof_D p ! 0)"
  define b where "b = boundary_row (is_boundary_value_scale s) (last (prof_D p))"
  define J1 where "J1 = assign_head (the_mat (hp ! is_J s)) new"
  from assms(1) have wf: "wf_profile p" and n: "is_n s \<noteq> 0"
    and J: "is_mat_of_rows (prof_N p + 2) (hp ! is_J s)"
    and Kr: "is_mat_of_rows (prof_N p) (hp ! is_K s)"
    by (simp_all add: is_inv_def p_def)
  from J obtain j where j: "hp ! is_J s = Mat j" "length j = prof_N p + 2"
    using is_mat_of_rowsD by blast
  from Kr have lK: "length K = prof_N p"
    using is_mat_of_rowsD K_def by fastforce
  from wf have lens: "length (prof_D p) = prof_N p"
    by (simp_all add: wf_profile_def)
  have D: "prof_D p \<noteq> []"
    using lens assms(3) by (auto simp: p_def)
  have lu: "length u = prof_N p" using assms(2) by (simp add: p_def)
  have len: "length (the_mat (hp ! is_J s)) = length new + 2"
    using j lK lu by (simp add: new_def length_membrane_jacobian length_np_eye)
  have J3: "(J1[length J1 - 2 := a])[length (J1[length J1 - 2 := a]) - 1 := b] = new @ [a, b]"
    unfolding J1_def by (rule assign_head_buffer[OF len])
  have c1: "(length u \<noteq> prof_N p) = False" using lu by simp
  have c2: "(is_n s = 0) = False" using n by simp
  have c3: "(prof_D p = []) = False" using D by simp
  have res: "IceStream_jacobian s K u scale = new @ [a, b]"
    by (simp add: IceStream_jacobian_def Let_def new_def a_def b_def Du_def p_def)
  have "IceStream_compute_jacobian s u scale hp =
      Inr (is_J s, hp[is_J s := Mat ((J1[length J1 - 2 := a])[length (J1[length J1 - 2 := a]) - 1 := b])])"
    unfolding IceStream_compute_jacobian_def Let_def
    by (simp only: c1 c2 c3 p_def[symmetric] Du_def[symmetric] K_def[symmetric] new_def[symmetric]
         a_def[symmetric] b_def[symmetric] J1_def[symmetric] if_False if_True simp_thms)
  then show ?thesis
    using J3 by (simp add: res[unfolded K_def])
qed

lemma ls_jac_call:
  assumes "ls_inv s hp" "length u = prof_N (ls_profile s)" "0 < prof_N (ls_profile s)"
    "ls_m s \<noteq> 0"
  shows "LateralIceStream_compute_jacobian s u scale hp =
           Inr (ls_J s, hp[ls_J s := Mat (LateralIceStream_jacobian s (the_mat (hp ! ls_K s))
                                            (the_vec (hp ! ls_Hf s)) u scale)])"
proof -
  define p where "p = ls_profile s"
  define Du where "Du = strain_rate p u"
  define K where "K = the_mat (hp ! ls_K s)"
  define Hf where "Hf = the_vec (hp ! ls_Hf s)"
  define new where "new = sub_diag (length u) (sub_diag (length u)
       (membrane_jacobian p K (ls_n s) (ls_nu_eps s) scale Du)
       (J_basal scale (ls_mu s) (ls_As s) (ls_m s) Hf u))
       (J_lateral scale (ls_W s) (ls_A s) (ls_n s) (prof_h p) u)"
  define a where "a = boundary_row (ls_boundary_value_scale s) (prof_D p ! 0)"
  define b where "b = boundary_row (ls_boundary_value_scale s) (last (prof_D p))"
  define J1 where "J1 = assign_head (the_mat (hp ! ls_J s)) new"
  from assms(1) have wf: "wf_profile p" and n: "ls_n s \<noteq> 0"
    and J: "is_mat_of_rows (prof_N p + 2) (hp ! ls_J s)"
    by (simp_all add: ls_inv_def p_def)
  from J obtain j where j: "hp ! ls_J s = Mat j" "length j = prof_N p + 2"
    using is_mat_of_rowsD by blast
  from wf have lens: "length (prof_D p) = prof_N p"
    by (simp_all add: wf_profile_def)
  have D: "prof_D p \<noteq> []"
    using lens assms(3) by (auto simp: p_def)
  have lu: "length u = prof_N p" using assms(2) by (simp add: p_def)
  have len: "length (the_mat (hp ! ls_J s)) = length new + 2"
    using j lu by (simp add: new_def length_sub_diag)
  have J3: "(J1[length J1 - 2 := a])[length (J1[length J1 - 2 := a]) - 1 := b] = new @ [a, b]"
    unfolding J1_def by (rule assign_head_buffer[OF len])
  have c1: "(length u \<noteq> prof_N p) = False" using lu by simp
  have c2: "(ls_n s = 0) = False" using n by simp
  have c3: "(prof_D p = []) = False" using D by simp
  have c4: "(ls_m s = 0) = False" using assms(4) by simp
  have res: "LateralIceStream_jacobian s K Hf u scale = new @ [a, b]"
    by (simp add: LateralIceStream_jacobian_def Let_def new_def a_def b_def Du_def p_def)
  have "LateralIceStream_compute_jacobian s u scale hp =
      Inr (ls_J s, hp[ls_J s := Mat ((J1[length J1 - 2 := a])[length (J1[length J1 - 2 := a]) - 1 := b])])"
    unfolding LateralIceStream_compute_jacobian_def Let_def
    by (simp only: c1 c2 c3 c4 p_def[symmetric] Du_def[symmetric] K_def[symmetric] Hf_def[symmetric]
         new_def[symmetric] a_def[symmetric] b_def[symmetric] J1_def[symmetric]
         if_False if_True simp_thms)
  then show ?thesis
    using J3 by (simp add: res[unfolded K_def Hf_def])
qed

section \<open>What a call changes in the store\<close>

lemma is_pde_error:
  assumes "wf_profile (is_profile s)"
    "length u \<noteq> prof_N (is_profile s) \<or> prof_N (is_profile s) = 0"
  shows "\<exists>e. IceStream_compute_pde_values s u scale hp = Inl e"
  using assms
  by (auto simp: IceStream_compute_pde_values_def Let_def wf_profile_def strain_rate_def np_dot_def)

lemma is_jac_error:
  assumes "wf_profile (is_profile s)"
    "length u \<noteq> prof_N (is_profile s) \<or> prof_N (is_profile s) = 0"
  shows "\<exists>e. IceStream_compute_jacobian s u scale hp = Inl e"
  using assms
  by (auto simp: IceStream_compute_jacobian_def Let_def wf_profile_def)

lemma ls_pde_error:
  assumes "wf_profile (ls_profile s)"
    "length u \<noteq> prof_N (ls_profile s) \<or> prof_N (ls_profile s) = 0 \<or> ls_m s = 0"
  shows "\<exists>e. LateralIceStream_compute_pde_values s u scale False hp = Inl e"
  using assms
  by (auto simp: LateralIceStream_compute_pde_values_def Let_def wf_profile_def strain_rate_def
      np_dot_def)

lemma ls_components_error:
  assumes "length u \<noteq> prof_N (ls_profile s) \<or> ls_m s = 0"
  shows "\<exists>e. LateralIceStream_compute_pde_values s u scale True hp = Inl e"
  using assms
  by (auto simp: LateralIceStream_compute_pde_values_def Let_def)

lemma ls_jac_error:
  assumes "wf_profile (ls_profile s)"
    "length u \<noteq> prof_N (ls_profile s) \<or> prof_N (ls_profile s) = 0 \<or> ls_m s = 0"
  shows "\<exists>e. LateralIceStream_compute_jacobian s u scale hp = Inl e"
  using assms
  by (auto simp: LateralIceStream_compute_jacobian_def Let_def wf_profile_def)

lemma is_step_shape:
  assumes "is_inv s hp"
  shows "\<exists>A B xs. is_step s hp c = hp[is_F s := A, is_J s := B] @ xs \<and>
           is_vec_of_length (prof_N (is_profile s) + 2) A \<and>
           is_mat_of_rows (prof_N (is_profile s) + 2) B"
proof -
  let ?N = "prof_N (is_profile s)"
  from assms have wf: "wf_profile (is_profile s)"
    and F: "is_vec_of_length (?N + 2) (hp ! is_F s)"
    and J: "is_mat_of_rows (?N + 2) (hp ! is_J s)"
    and K: "is_mat_of_rows ?N (hp ! is_K s)"
    by (simp_all add: is_inv_def)
  have same: "hp = hp[is_F s := hp ! is_F s, is_J s := hp ! is_J s] @ []" by simp
  show ?thesis
  proof (cases c)
    case (IsPde u sc)
    show ?thesis
    proof (cases "length u = ?N \<and> 0 < ?N")
      case True
      have "is_vec_of_length (?N + 2) (Vec (IceStream_residual s u sc))"
        using length_IceStream_residual[OF wf] True by simp
      moreover have "is_step s hp c =
          hp[is_F s := Vec (IceStream_residual s u sc), is_J s := hp ! is_J s]
            @ [Vec (IceStream_residual s u sc)]"
        using IsPde is_pde_call[OF assms, of u sc] True assms
        by (simp add: is_inv_def list_update_swap[of "is_F s" "is_J s"])
      ultimately show ?thesis using J by blast
    next
      case False
      then obtain e where "IceStream_compute_pde_values s u sc hp = Inl e"
        using is_pde_error[OF wf, of u sc hp] by auto
      then have "is_step s hp c = hp" using IsPde by simp
      then show ?thesis using same F J by metis
    qed
  next
    case (IsJac u sc)
    show ?thesis
    proof (cases "length u = ?N \<and> 0 < ?N")
      case True
      have lK: "length (the_mat (hp ! is_K s)) = ?N"
        using is_mat_of_rowsD[OF K] by fastforce
      have "is_mat_of_rows (?N + 2) (Mat (IceStream_jacobian s (the_mat (hp ! is_K s)) u sc))"
        using length_IceStream_jacobian[OF lK] True by simp
      moreover have "is_step s hp c =
          hp[is_F s := hp ! is_F s, is_J s := Mat (IceStream_jacobian s (the_mat (hp ! is_K s)) u sc)]
            @ []"
        using IsJac is_jac_call[OF assms, of u sc] True by simp
      ultimately show ?thesis using F by blast
    next
      case False
      then obtain e where "IceStream_compute_jacobian s u sc hp = Inl e"
        using is_jac_error[OF wf, of u sc hp] by auto
      then have "is_step s hp c = hp" using IsJac by simp
      then show ?thesis using same F J by metis
    qed
  qed
qed


lemma ls_step_shape:
  assumes "ls_inv s hp"
  shows "\<exists>A B xs. ls_step s hp c = hp[ls_F s := A, ls_J s := B] @ xs \<and>
           is_vec_of_length (prof_N (ls_profile s) + 2) A \<and>
           is_mat_of_rows (prof_N (ls_profile s) + 2) B"
proof -
  let ?N = "prof_N (ls_profile s)"
  from assms have wf: "wf_profile (ls_profile s)" and n: "ls_n s \<noteq> 0"
    and F: "is_vec_of_length (?N + 2) (hp ! ls_F s)"
    and J: "is_mat_of_rows (?N + 2) (hp ! ls_J s)"
    by (simp_all add: ls_inv_def)
  have same: "\<And>xs. hp @ xs = hp[ls_F s := hp ! ls_F s, ls_J s := hp ! ls_J s] @ xs" by simp
  have lH: "length (the_vec (hp ! ls_Hf s)) = ?N" by (rule ls_inv_Hf_length[OF assms])
  show ?thesis
  proof (cases c)
    case (LsPde u sc rc)
    show ?thesis
    proof (cases rc)
      case True
      show ?thesis
      proof (cases "length u = ?N \<and> ls_m s \<noteq> 0")
        case t: True
        have "\<exists>xs. ls_step s hp c = hp @ xs"
          using LsPde True t n ls_components_call[of u s sc hp] by simp
        then show ?thesis using same F J by metis
      next
        case False
        then obtain e where "LateralIceStream_compute_pde_values s u sc True hp = Inl e"
          using ls_components_error[of u s sc hp] by auto
        then have "ls_step s hp c = hp @ []" using LsPde True by simp
        then show ?thesis using same F J by metis
      qed
    next
      case False
      show ?thesis
      proof (cases "length u = ?N \<and> 0 < ?N \<and> ls_m s \<noteq> 0")
        case t: True
        have "is_vec_of_length (?N + 2)
                (Vec (LateralIceStream_residual s (the_vec (hp ! ls_Hf s)) u sc))"
          using length_LateralIceStream_residual[OF wf _ lH] t by simp
        moreover have "ls_step s hp c =
            hp[ls_F s := Vec (LateralIceStream_residual s (the_vec (hp ! ls_Hf s)) u sc),
               ls_J s := hp ! ls_J s]
              @ [Vec (LateralIceStream_residual s (the_vec (hp ! ls_Hf s)) u sc)]"
          using LsPde False ls_pde_call[OF assms, of u sc] t assms
          by (simp add: ls_inv_def list_update_swap[of "ls_F s" "ls_J s"])
        ultimately show ?thesis using J by blast
      next
        case f: False
        then obtain e where "LateralIceStream_compute_pde_values s u sc False hp = Inl e"
          using ls_pde_error[OF wf, of u sc hp] by auto
        then have "ls_step s hp c = hp @ []" using LsPde False by simp
        then show ?thesis using same F J by metis
      qed
    qed
  next
    case (LsJac u sc)
    show ?thesis
    proof (cases "length u = ?N \<and> 0 < ?N \<and> ls_m s \<noteq> 0")
      case True
      have "is_mat_of_rows (?N + 2)
              (Mat (LateralIceStream_jacobian s (the_mat (hp ! ls_K s)) (the_vec (hp ! ls_Hf s)) u sc))"
        using length_LateralIceStream_jacobian True by simp
      moreover have "ls_step s hp c =
          hp[ls_F s := hp ! ls_F s,
             ls_J s := Mat (LateralIceStream_jacobian s (the_mat (hp ! ls_K s))
                              (the_vec (hp ! ls_Hf s)) u sc)] @ []"
        using LsJac ls_jac_call[OF assms, of u sc] True by simp
      ultimately show ?thesis using F by blast
    next
      case False
      then obtain e where "LateralIceStream_compute_jacobian s u sc hp = Inl e"
        using ls_jac_error[OF wf, of u sc hp] by auto
      then have "ls_step s hp c = hp @ []" using LsJac by simp
      then show ?thesis using same F J by metis
    qed
  qed
qed

lemma is_inv_write:
  assumes "is_inv s hp" "is_vec_of_length (prof_N (is_profile s) + 2) A"
    "is_mat_of_rows (prof_N (is_profile s) + 2) B"
  shows "is_inv s (hp[is_F s := A, is_J s := B] @ xs)"
  using assms by (auto simp: is_inv_def nth_append nth_list_update)

lemma ls_inv_write:
  assumes "ls_inv s hp" "is_vec_of_length (prof_N (ls_profile s) + 2) A"
    "is_mat_of_rows (prof_N (ls_profile s) + 2) B"
  shows "ls_inv s (hp[ls_F s := A, ls_J s := B] @ xs)"
  using assms by (auto simp: ls_inv_def nth_append nth_list_update)

lemma is_step_inv: "is_inv s hp \<Longrightarrow> is_inv s (is_step s hp c)"
  using is_step_shape[of s hp c] is_inv_write[of s hp] by metis

lemma ls_step_inv: "ls_inv s hp \<Longrightarrow> ls_inv s (ls_step s hp c)"
  using ls_step_shape[of s hp c] ls_inv_write[of s hp] by metis

lemma is_step_frame:
  assumes "is_inv s hp" "a < length hp" "a \<noteq> is_F s" "a \<noteq> is_J s"
  shows "is_step s hp c ! a = hp ! a" and "length hp \<le> length (is_step s hp c)"
proof -
  obtain A B xs where e: "is_step s hp c = hp[is_F s := A, is_J s := B] @ xs"
    using is_step_shape[OF assms(1), of c] by blast
  show "is_step s hp c ! a = hp ! a" using assms(2-4) by (simp add: e nth_append)
  show "length hp \<le> length (is_step s hp c)" by (simp add: e)
qed

lemma ls_step_frame:
  assumes "ls_inv s hp" "a < length hp" "a \<noteq> ls_F s" "a \<noteq> ls_J s"
  shows "ls_step s hp c ! a = hp ! a" and "length hp \<le> length (ls_step s hp c)"
proof -
  obtain A B xs where e: "ls_step s hp c = hp[ls_F s := A, ls_J s := B] @ xs"
    using ls_step_shape[OF assms(1), of c] by blast
  show "ls_step s hp c ! a = hp ! a" using assms(2-4) by (simp add: e nth_append)
  show "length hp \<le> length (ls_step s hp c)" by (simp add: e)
qed

lemma is_run_frame:
  assumes "is_inv s hp" "a < length hp" "a \<noteq> is_F s" "a \<noteq> is_J s"
  shows "is_inv s (is_run s hp cs) \<and> is_run s hp cs ! a = hp ! a \<and>
         length hp \<le> length (is_run s hp cs)"
  using assms
proof (induction cs arbitrary: hp)
  case Nil
  then show ?case by (simp add: is_run_def)
next
  case (Cons c cs)
  have i: "is_inv s (is_step s hp c)" by (rule is_step_inv[OF Cons.prems(1)])
  have f: "is_step s hp c ! a = hp ! a" "length hp \<le> length (is_step s hp c)"
    using is_step_frame[OF Cons.prems] by auto
  have a: "a < length (is_step s hp c)" using f(2) Cons.prems(2) by simp
  from Cons.IH[OF i a Cons.prems(3,4)] f show ?case
    by (simp add: is_run_def)
qed

lemma ls_run_frame:
  assumes "ls_inv s hp" "a < length hp" "a \<noteq> ls_F s" "a \<noteq> ls_J s"
  shows "ls_inv s (ls_run s hp cs) \<and> ls_run s hp cs ! a = hp ! a \<and>
         length hp \<le> length (ls_run s hp cs)"
  using assms
proof (induction cs arbitrary: hp)
  case Nil
  then show ?case by (simp add: ls_run_def)
next
  case (Cons c cs)
  have i: "ls_inv s (ls_step s hp c)" by (rule ls_step_inv[OF Cons.prems(1)])
  have f: "ls_step s hp c ! a = hp ! a" "length hp \<le> length (ls_step s hp c)"
    using ls_step_frame[OF Cons.prems] by auto
  have a: "a < length (ls_step s hp c)" using f(2) Cons.prems(2) by simp
  from Cons.IH[OF i a Cons.prems(3,4)] f show ?case
    by (simp add: ls_run_def)
qed

lemma is_run_inv: "is_inv s hp \<Longrightarrow> is_inv s (is_run s hp cs)"
proof (induction cs arbitrary: hp)
  case Nil
  then show ?case by (simp add: is_run_def)
next
  case (Cons c cs)
  then show ?case using is_step_inv[of s hp c] by (simp add: is_run_def)
qed

lemma ls_run_inv: "ls_inv s hp \<Longrightarrow> ls_inv s (ls_run s hp cs)"
proof (induction cs arbitrary: hp)
  case Nil
  then show ?case by (simp add: ls_run_def)
next
  case (Cons c cs)
  then show ?case using ls_step_inv[of s hp c] by (simp add: ls_run_def)
qed


section \<open>Decomposed output\<close>



lemma is_inv_append: "is_inv s hp \<Longrightarrow> is_inv s (hp @ xs)"
  using is_inv_write[of s hp "hp ! is_F s" "hp ! is_J s" xs] by (simp add: is_inv_def)




section \<open>Odd symmetry of the drags\<close>

lemma basal_drag_neg:
  "basal_drag sc mu As m Hf (map fin_neg u) = map uminus (basal_drag sc mu As m Hf u)"
  unfolding basal_drag_def
  by (rule nth_equalityI)
     (simp_all add: np_copysign_ones_neg np_abs_neg fval_mult_neg_left fval_mult_neg_right)

lemma lateral_drag_neg:
  "lateral_drag sc W A n h (map fin_neg u) = map uminus (lateral_drag sc W A n h u)"
  unfolding lateral_drag_def
  by (rule nth_equalityI)
     (simp_all add: np_copysign_ones_neg np_abs_neg fval_mult_neg_left fval_mult_neg_right
        fval_div_neg_left)

text \<open>
  C7, as amended. For the confined model and every \<open>u\<close> of length \<open>N\<close>: the calls with
  the components requested, for \<open>u\<close> and for \<open>-u\<close>, return dictionaries with the keys
  membrane, basal, lateral and driving, whose basal and lateral arrays have length
  \<open>N\<close>; at every node the drag for \<open>-u\<close> is NaN exactly when the drag for \<open>u\<close> is, and
  where it is not NaN the two satisfy \<^verbatim>\<open>drag(-u)[i] == -drag(u)[i]\<close>.
\<close>

theorem drag_odd_symmetry:
  assumes "ls_inv s hp" "length u = prof_N (ls_profile s)" "ls_m s \<noteq> 0"
  shows "\<exists>cd hp1 b l cd' hp1' b' l'.
     LateralIceStream_compute_pde_values s u scale True hp = Inr (Components cd, hp1) \<and>
     LateralIceStream_compute_pde_values s (map fin_neg u) scale True hp
       = Inr (Components cd', hp1') \<and>
     map fst cd = [''membrane'', ''basal'', ''lateral'', ''driving''] \<and>
     map fst cd' = [''membrane'', ''basal'', ''lateral'', ''driving''] \<and>
     component hp1 cd ''basal'' = Inr b \<and> component hp1 cd ''lateral'' = Inr l \<and>
     component hp1' cd' ''basal'' = Inr b' \<and> component hp1' cd' ''lateral'' = Inr l' \<and>
     length b = prof_N (ls_profile s) \<and> length l = prof_N (ls_profile s) \<and>
     length b' = prof_N (ls_profile s) \<and> length l' = prof_N (ls_profile s) \<and>
     (\<forall>i < prof_N (ls_profile s).
        (b' ! i = NaN) = (b ! i = NaN) \<and> (l' ! i = NaN) = (l ! i = NaN) \<and>
        (b ! i \<noteq> NaN \<longrightarrow> np_eq (b' ! i) (- (b ! i))) \<and>
        (l ! i \<noteq> NaN \<longrightarrow> np_eq (l' ! i) (- (l ! i))))"
proof -
  let ?p = "ls_profile s"
  let ?N = "prof_N ?p"
  let ?Hf = "the_vec (hp ! ls_Hf s)"
  let ?v = "map fin_neg u"
  let ?m = "\<lambda>u. membrane_stress ?p (ls_A s) (ls_n s) (ls_nu_eps s) scale (strain_rate ?p u)"
  let ?b = "\<lambda>u. basal_drag scale (ls_mu s) (ls_As s) (ls_m s) ?Hf u"
  let ?l = "\<lambda>u. lateral_drag scale (ls_W s) (ls_A s) (ls_n s) (prof_h ?p) u"
  let ?d = "driving_stress ?p (ls_rho_ice s) (ls_g s) scale"
  let ?cd = "[(''membrane'', length hp), (''basal'', length hp + 1),
              (''lateral'', length hp + 2), (''driving'', length hp + 3)]"
  let ?hp1 = "\<lambda>u. hp @ [Vec (?m u), Vec (?b u), Vec (?l u), Vec ?d]"
  from assms(1) have wf: "wf_profile ?p" and n: "ls_n s \<noteq> 0"
    by (simp_all add: ls_inv_def)
  from wf have lens: "length (prof_h ?p) = ?N"
    by (simp_all add: wf_profile_def)
  have lH: "length ?Hf = ?N" by (rule ls_inv_Hf_length[OF assms(1)])
  have lv: "length ?v = ?N" using assms(2) by simp
  have c1: "LateralIceStream_compute_pde_values s u scale True hp
      = Inr (Components ?cd, ?hp1 u)"
    by (rule ls_components_call[OF assms(2) n assms(3)])
  have c2: "LateralIceStream_compute_pde_values s ?v scale True hp
      = Inr (Components ?cd, ?hp1 ?v)"
    by (rule ls_components_call[OF lv n assms(3)])
  have keys: "map fst ?cd = [''membrane'', ''basal'', ''lateral'', ''driving'']" by simp
  have comps: "component (?hp1 u) ?cd ''basal'' = Inr (?b u)"
    "component (?hp1 u) ?cd ''lateral'' = Inr (?l u)"
    "component (?hp1 ?v) ?cd ''basal'' = Inr (?b ?v)"
    "component (?hp1 ?v) ?cd ''lateral'' = Inr (?l ?v)"
    by (simp_all add: component_def nth_append)
  have lb: "length (?b u) = ?N" by (simp add: length_basal_drag lH assms(2))
  have ll: "length (?l u) = ?N" by (simp add: length_lateral_drag lens assms(2))
  have lb': "length (?b ?v) = ?N" by (simp add: length_basal_drag lH assms(2))
  have ll': "length (?l ?v) = ?N" by (simp add: length_lateral_drag lens assms(2))
  have entry: "\<forall>i < ?N.
        (?b ?v ! i = NaN) = (?b u ! i = NaN) \<and> (?l ?v ! i = NaN) = (?l u ! i = NaN) \<and>
        (?b u ! i \<noteq> NaN \<longrightarrow> np_eq (?b ?v ! i) (- (?b u ! i))) \<and>
        (?l u ! i \<noteq> NaN \<longrightarrow> np_eq (?l ?v ! i) (- (?l u ! i)))"
  proof (intro allI impI)
    fix i assume i: "i < ?N"
    have b: "?b ?v ! i = - (?b u ! i)"
      unfolding basal_drag_neg using i lb by simp
    have l: "?l ?v ! i = - (?l u ! i)"
      unfolding lateral_drag_neg using i ll by simp
    show "(?b ?v ! i = NaN) = (?b u ! i = NaN) \<and> (?l ?v ! i = NaN) = (?l u ! i = NaN) \<and>
        (?b u ! i \<noteq> NaN \<longrightarrow> np_eq (?b ?v ! i) (- (?b u ! i))) \<and>
        (?l u ! i \<noteq> NaN \<longrightarrow> np_eq (?l ?v ! i) (- (?l u ! i)))"
      unfolding b l by (simp add: fval_neg_NaN np_eq_same)
  qed
  show ?thesis
    apply (rule exI[of _ ?cd], rule exI[of _ "?hp1 u"], rule exI[of _ "?b u"],
        rule exI[of _ "?l u"], rule exI[of _ ?cd], rule exI[of _ "?hp1 ?v"],
        rule exI[of _ "?b ?v"], rule exI[of _ "?l ?v"])
    apply (intro conjI)
                apply (rule c1)
               apply (rule c2)
              apply (rule keys)
             apply (rule keys)
            apply (rule comps(1))
           apply (rule comps(2))
          apply (rule comps(3))
         apply (rule comps(4))
        apply (rule lb)
       apply (rule ll)
      apply (rule lb')
     apply (rule ll')
    apply (rule entry)
    done
qed

theorem drag_odd_symmetry_witness:
  "ls_inv ex_ls ex_ls_heap \<and> length [Val 1, Val 3] = prof_N (ls_profile ex_ls) \<and>
   ls_m ex_ls \<noteq> 0 \<and>
   (\<exists>cd hp1 b l cd' hp1' b' l'.
     LateralIceStream_compute_pde_values ex_ls [Val 1, Val 3] (1 / 100) True ex_ls_heap
       = Inr (Components cd, hp1) \<and>
     LateralIceStream_compute_pde_values ex_ls (map fin_neg [Val 1, Val 3]) (1 / 100) True
       ex_ls_heap = Inr (Components cd', hp1') \<and>
     map fst cd = [''membrane'', ''basal'', ''lateral'', ''driving''] \<and>
     map fst cd' = [''membrane'', ''basal'', ''lateral'', ''driving''] \<and>
     component hp1 cd ''basal'' = Inr b \<and> component hp1 cd ''lateral'' = Inr l \<and>
     component hp1' cd' ''basal'' = Inr b' \<and> component hp1' cd' ''lateral'' = Inr l' \<and>
     length b = 2 \<and> length l = 2 \<and> length b' = 2 \<and> length l' = 2 \<and>
     (0::nat) < 2 \<and> b ! 0 \<noteq> NaN \<and> np_eq (b' ! 0) (- (b ! 0)) \<and>
     l ! 0 \<noteq> NaN \<and> np_eq (l' ! 0) (- (l ! 0)))"
proof -
  let ?u = "[Val 1, Val 3]"
  have h: "length ?u = prof_N (ls_profile ex_ls)" "ls_m ex_ls \<noteq> 0"
    by (simp_all add: ex_ls_def ex_profile_def)
  have n: "ls_n ex_ls \<noteq> 0" by (simp add: ex_ls_def)
  have N: "prof_N (ls_profile ex_ls) = 2"
    by (simp add: ex_ls_def ex_profile_def)
  from drag_odd_symmetry[OF ex_ls_inv h, of "1 / 100"]
  obtain cd hp1 b l cd' hp1' b' l' where f:
     "LateralIceStream_compute_pde_values ex_ls ?u (1 / 100) True ex_ls_heap
       = Inr (Components cd, hp1)"
     "LateralIceStream_compute_pde_values ex_ls (map fin_neg ?u) (1 / 100) True
       ex_ls_heap = Inr (Components cd', hp1')"
     "map fst cd = [''membrane'', ''basal'', ''lateral'', ''driving'']"
     "map fst cd' = [''membrane'', ''basal'', ''lateral'', ''driving'']"
     "component hp1 cd ''basal'' = Inr b" "component hp1 cd ''lateral'' = Inr l"
     "component hp1' cd' ''basal'' = Inr b'" "component hp1' cd' ''lateral'' = Inr l'"
     "length b = 2" "length l = 2" "length b' = 2" "length l' = 2"
     and g: "\<forall>i<2. (b' ! i = NaN) = (b ! i = NaN) \<and> (l' ! i = NaN) = (l ! i = NaN) \<and>
        (b ! i \<noteq> NaN \<longrightarrow> np_eq (b' ! i) (- (b ! i))) \<and>
        (l ! i \<noteq> NaN \<longrightarrow> np_eq (l' ! i) (- (l ! i)))"
    unfolding N by (elim exE conjE)
  from f(1) ls_components_call[OF h(1) n h(2), of "1 / 100" ex_ls_heap]
  have cd: "cd = [(''membrane'', length ex_ls_heap), (''basal'', length ex_ls_heap + 1),
                  (''lateral'', length ex_ls_heap + 2), (''driving'', length ex_ls_heap + 3)]"
    and hp1: "hp1 = ex_ls_heap @
       [Vec (membrane_stress (ls_profile ex_ls) (ls_A ex_ls) (ls_n ex_ls) (ls_nu_eps ex_ls)
               (1 / 100) (strain_rate (ls_profile ex_ls) ?u)),
        Vec (basal_drag (1 / 100) (ls_mu ex_ls) (ls_As ex_ls) (ls_m ex_ls)
               (the_vec (ex_ls_heap ! ls_Hf ex_ls)) ?u),
        Vec (lateral_drag (1 / 100) (ls_W ex_ls) (ls_A ex_ls) (ls_n ex_ls)
               (prof_h (ls_profile ex_ls)) ?u),
        Vec (driving_stress (ls_profile ex_ls) (ls_rho_ice ex_ls) (ls_g ex_ls) (1 / 100))]"
    by simp_all
  have b: "b = basal_drag (1 / 100) (ls_mu ex_ls) (ls_As ex_ls) (ls_m ex_ls)
               (the_vec (ex_ls_heap ! ls_Hf ex_ls)) ?u"
    and l: "l = lateral_drag (1 / 100) (ls_W ex_ls) (ls_A ex_ls) (ls_n ex_ls)
               (prof_h (ls_profile ex_ls)) ?u"
    using f(5,6) unfolding cd hp1 by (simp_all add: component_def nth_append)
  have nb: "b ! 0 \<noteq> NaN" and nl: "l ! 0 \<noteq> NaN"
    using ex_ls_drags_finite unfolding b l by simp_all
  with g have eb: "np_eq (b' ! 0) (- (b ! 0))" and el: "np_eq (l' ! 0) (- (l ! 0))"
    by simp_all
  have two: "(0::nat) < 2" by simp
  have ex: "\<exists>cd hp1 b l cd' hp1' b' l'.
     LateralIceStream_compute_pde_values ex_ls ?u (1 / 100) True ex_ls_heap
       = Inr (Components cd, hp1) \<and>
     LateralIceStream_compute_pde_values ex_ls (map fin_neg ?u) (1 / 100) True
       ex_ls_heap = Inr (Components cd', hp1') \<and>
     map fst cd = [''membrane'', ''basal'', ''lateral'', ''driving''] \<and>
     map fst cd' = [''membrane'', ''basal'', ''lateral'', ''driving''] \<and>
     component hp1 cd ''basal'' = Inr b \<and> component hp1 cd ''lateral'' = Inr l \<and>
     component hp1' cd' ''basal'' = Inr b' \<and> component hp1' cd' ''lateral'' = Inr l' \<and>
     length b = 2 \<and> length l = 2 \<and> length b' = 2 \<and> length l' = 2 \<and>
     (0::nat) < 2 \<and> b ! 0 \<noteq> NaN \<and> np_eq (b' ! 0) (- (b ! 0)) \<and>
     l ! 0 \<noteq> NaN \<and> np_eq (l' ! 0) (- (l ! 0))"
    apply (rule exI[of _ cd], rule exI[of _ hp1], rule exI[of _ b], rule exI[of _ l],
        rule exI[of _ cd'], rule exI[of _ hp1'], rule exI[of _ b'], rule exI[of _ l'])
    apply (intro conjI)
                    apply (rule f(1))
                   apply (rule f(2))
                  apply (rule f(3))
                 apply (rule f(4))
                apply (rule f(5))
               apply (rule f(6))
              apply (rule f(7))
             apply (rule f(8))
            apply (rule f(9))
           apply (rule f(10))
          apply (rule f(11))
         apply (rule f(12))
        apply (rule two)
       apply (rule nb)
      apply (rule eb)
     apply (rule nl)
    apply (rule el)
    done
  show ?thesis
    apply (intro conjI)
       apply (rule ex_ls_inv)
      apply (rule h(1))
     apply (rule h(2))
    apply (rule ex)
    done
qed

theorem drag_nan_counterexample:
  "map fin_neg [Val 0, Val 1] = [NegZero, Val (- 1)] \<and>
   (\<exists>hp1 hp1'.
     LateralIceStream_compute_pde_values ex_ls0 [Val 0, Val 1] (1 / 100) True ex_ls_heap
       = Inr (Components [(''membrane'', 4), (''basal'', 5), (''lateral'', 6), (''driving'', 7)],
              hp1) \<and>
     LateralIceStream_compute_pde_values ex_ls0 [NegZero, Val (- 1)] (1 / 100) True ex_ls_heap
       = Inr (Components [(''membrane'', 4), (''basal'', 5), (''lateral'', 6), (''driving'', 7)],
              hp1') \<and>
     component hp1 [(''membrane'', 4), (''basal'', 5), (''lateral'', 6), (''driving'', 7)]
       ''basal'' = Inr (the_vec (hp1 ! 5)) \<and>
     component hp1' [(''membrane'', 4), (''basal'', 5), (''lateral'', 6), (''driving'', 7)]
       ''basal'' = Inr (the_vec (hp1' ! 5)) \<and>
     the_vec (hp1 ! 5) ! 0 = NaN \<and>
     \<not> np_eq (the_vec (hp1' ! 5) ! 0) (- (the_vec (hp1 ! 5) ! 0)))"
proof -
  let ?u = "[Val 0, Val 1]"
  let ?v = "[NegZero, Val (- 1)]"
  let ?Hf = "the_vec (ex_ls_heap ! ls_Hf ex_ls0)"
  let ?hp1 = "\<lambda>u. ex_ls_heap @ [Vec (membrane_stress (ls_profile ex_ls0) (ls_A ex_ls0)
                                   (ls_n ex_ls0) (ls_nu_eps ex_ls0) (1 / 100)
                                   (strain_rate (ls_profile ex_ls0) u)),
      Vec (basal_drag (1 / 100) (ls_mu ex_ls0) (ls_As ex_ls0) (ls_m ex_ls0) ?Hf u),
      Vec (lateral_drag (1 / 100) (ls_W ex_ls0) (ls_A ex_ls0) (ls_n ex_ls0)
             (prof_h (ls_profile ex_ls0)) u),
      Vec (driving_stress (ls_profile ex_ls0) (ls_rho_ice ex_ls0) (ls_g ex_ls0) (1 / 100))]"
  have h: "length ?u = prof_N (ls_profile ex_ls0)" "length ?v = prof_N (ls_profile ex_ls0)"
    "ls_m ex_ls0 \<noteq> 0" "ls_n ex_ls0 \<noteq> 0"
    by (simp_all add: ex_ls0_def ex_ls_def ex_profile_def)
  have len: "length ex_ls_heap = 4" by (simp add: ex_ls_heap_def)
  have c1: "LateralIceStream_compute_pde_values ex_ls0 ?u (1 / 100) True ex_ls_heap
       = Inr (Components [(''membrane'', 4), (''basal'', 5), (''lateral'', 6), (''driving'', 7)],
              ?hp1 ?u)"
    using ls_components_call[OF h(1) h(4) h(3), of "1 / 100" ex_ls_heap] by (simp add: len)
  have c2: "LateralIceStream_compute_pde_values ex_ls0 ?v (1 / 100) True ex_ls_heap
       = Inr (Components [(''membrane'', 4), (''basal'', 5), (''lateral'', 6), (''driving'', 7)],
              ?hp1 ?v)"
    using ls_components_call[OF h(2) h(4) h(3), of "1 / 100" ex_ls_heap] by (simp add: len)
  have k1: "component (?hp1 ?u)
       [(''membrane'', 4), (''basal'', 5), (''lateral'', 6), (''driving'', 7)] ''basal''
       = Inr (the_vec (?hp1 ?u ! 5))"
    by (simp add: component_def)
  have k2: "component (?hp1 ?v)
       [(''membrane'', 4), (''basal'', 5), (''lateral'', 6), (''driving'', 7)] ''basal''
       = Inr (the_vec (?hp1 ?v ! 5))"
    by (simp add: component_def)
  have b: "the_vec (?hp1 ?u ! 5) ! 0 = NaN"
    using ex_ls0_basal_nan by (simp add: nth_append len)
  have "- (the_vec (?hp1 ?u ! 5) ! 0) = NaN"
    by (simp only: b fval_neg_NaN)
  then have ne: "\<not> np_eq (the_vec (?hp1 ?v ! 5) ! 0) (- (the_vec (?hp1 ?u ! 5) ! 0))"
    by (simp only: np_eq_NaN not_False_eq_True)
  have m: "map fin_neg ?u = ?v" by simp
  have "\<exists>hp1 hp1'.
     LateralIceStream_compute_pde_values ex_ls0 ?u (1 / 100) True ex_ls_heap
       = Inr (Components [(''membrane'', 4), (''basal'', 5), (''lateral'', 6), (''driving'', 7)],
              hp1) \<and>
     LateralIceStream_compute_pde_values ex_ls0 ?v (1 / 100) True ex_ls_heap
       = Inr (Components [(''membrane'', 4), (''basal'', 5), (''lateral'', 6), (''driving'', 7)],
              hp1') \<and>
     component hp1 [(''membrane'', 4), (''basal'', 5), (''lateral'', 6), (''driving'', 7)]
       ''basal'' = Inr (the_vec (hp1 ! 5)) \<and>
     component hp1' [(''membrane'', 4), (''basal'', 5), (''lateral'', 6), (''driving'', 7)]
       ''basal'' = Inr (the_vec (hp1' ! 5)) \<and>
     the_vec (hp1 ! 5) ! 0 = NaN \<and>
     \<not> np_eq (the_vec (hp1' ! 5) ! 0) (- (the_vec (hp1 ! 5) ! 0))"
    apply (rule exI[of _ "?hp1 ?u"], rule exI[of _ "?hp1 ?v"])
    apply (intro conjI)
         apply (rule c1)
        apply (rule c2)
       apply (rule k1)
      apply (rule k2)
     apply (rule b)
    apply (rule ne)
    done
  with m show ?thesis by (intro conjI)
qed

section \<open>The unused constant\<close>

text \<open>
  C10. For the confined model, \<^verbatim>\<open>drag_eps\<close> is set by \<^verbatim>\<open>__init__\<close> and read by no
  method: for every \<open>u\<close>, scale and flag, the residual, the component dictionary and
  the Jacobian, with the stores they leave, are the same for two instances that differ
  in \<^verbatim>\<open>drag_eps\<close> only.
\<close>

theorem drag_eps_not_read:
  "LateralIceStream_compute_pde_values (s\<lparr>ls_drag_eps := e\<rparr>) u scale rc hp
     = LateralIceStream_compute_pde_values s u scale rc hp \<and>
   LateralIceStream_compute_jacobian (s\<lparr>ls_drag_eps := e\<rparr>) u scale hp
     = LateralIceStream_compute_jacobian s u scale hp \<and>
   ls_run (s\<lparr>ls_drag_eps := e\<rparr>) hp cs = ls_run s hp cs"
proof -
  have p: "\<And>u scale rc hp. LateralIceStream_compute_pde_values (s\<lparr>ls_drag_eps := e\<rparr>) u scale rc hp
     = LateralIceStream_compute_pde_values s u scale rc hp"
    by (simp add: LateralIceStream_compute_pde_values_def Let_def)
  have j: "\<And>u scale hp. LateralIceStream_compute_jacobian (s\<lparr>ls_drag_eps := e\<rparr>) u scale hp
     = LateralIceStream_compute_jacobian s u scale hp"
    by (simp add: LateralIceStream_compute_jacobian_def Let_def)
  have st: "\<And>hp c. ls_step (s\<lparr>ls_drag_eps := e\<rparr>) hp c = ls_step s hp c"
  proof -
    fix hp c show "ls_step (s\<lparr>ls_drag_eps := e\<rparr>) hp c = ls_step s hp c"
      by (cases c) (simp_all only: ls_step.simps p j)
  qed
  have "ls_step (s\<lparr>ls_drag_eps := e\<rparr>) = ls_step s"
    by (intro ext) (rule st)
  then have r: "ls_run (s\<lparr>ls_drag_eps := e\<rparr>) hp cs = ls_run s hp cs"
    by (simp only: ls_run_def)
  from p j r show ?thesis by (intro conjI)
qed


section \<open>The effective viscosity\<close>






section \<open>The basal term of the Jacobian\<close>

lemma J_basal_nth:
  assumes "i < length Hf" "i < length u"
  shows "J_basal sc mu As m Hf u ! i = J_basal_entry sc mu As m (Hf ! i) (u ! i)"
  using assms by (simp add: J_basal_def)

lemma np_abs_Fin: "\<exists>a. np_abs x = Fin a \<and> 0 \<le> a \<and> (a = 0 \<longleftrightarrow> to_fval x = Fin 0)"
  by (cases x) (auto simp: np_abs_def)

lemma ls_inv_Hf_entry:
  assumes "ls_inv s hp" "i < prof_N (ls_profile s)"
  shows "\<exists>r. the_vec (hp ! ls_Hf s) ! i = Fin r \<and> 1 / 100 \<le> r"
proof -
  have l: "length (the_vec (hp ! ls_Hf s)) = prof_N (ls_profile s)"
    by (rule ls_inv_Hf_length[OF assms(1)])
  have "list_all at_least_floor (the_vec (hp ! ls_Hf s))"
    using assms(1) by (simp add: ls_inv_def)
  then have "at_least_floor (the_vec (hp ! ls_Hf s) ! i)"
    using l assms(2) by (simp add: list_all_length)
  then show ?thesis by (cases "the_vec (hp ! ls_Hf s) ! i") auto
qed

lemma J_basal_entry_singular:
  assumes "1 < m" "to_fval x = Fin 0"
  shows "\<not> np_isfinite (J_basal_entry sc mu As m hf x)"
proof -
  have e: "(1 - m) / m < 0" using assms(1) by (simp add: field_simps)
  have a: "np_abs x = Fin 0" using assms(2) by (simp add: np_abs_def)
  have p: "np_pow (hf * np_abs x) ((1 - m) / m) = PInf \<or>
           np_pow (hf * np_abs x) ((1 - m) / m) = NaN"
    using e assms(1) by (cases hf) (simp_all add: a)
  have inf: "\<And>c::fval. \<not> np_isfinite (c * PInf)" by (case_tac c) simp_all
  have nan: "\<And>c::fval. \<not> np_isfinite (c * NaN)" by (case_tac c) simp_all
  from p show ?thesis unfolding J_basal_entry_def using inf nan by auto
qed

lemma gradient_product_shape:
  assumes "length A = k" "list_all (\<lambda>row. length row = c) A" "length b = k"
  shows "length (gradient_product b A) = k"
    and "list_all (\<lambda>row. length row = c) (gradient_product b A)"
  using assms by (simp_all add: gradient_product_def list_all_length)

lemma matrix_sum_shape:
  assumes "length A = k" "list_all (\<lambda>row. length row = c) A"
    "length B = k" "list_all (\<lambda>row. length row = c) B"
  shows "length (map2 (map2 (+)) A B) = k"
    and "list_all (\<lambda>row. length row = c) (map2 (map2 (+)) A (B::mat))"
  using assms by (simp_all add: list_all_length)

lemma foldr_max_rows:
  "M \<noteq> [] \<Longrightarrow> list_all (\<lambda>row. length row = c) M \<Longrightarrow> foldr (\<lambda>xs. max (length xs)) M 0 = c"
proof (induction M)
  case Nil
  then show ?case by simp
next
  case (Cons row M)
  then show ?case by (cases "M = []") simp_all
qed

lemma length_transpose_rows:
  "M \<noteq> [] \<Longrightarrow> list_all (\<lambda>row. length row = c) M \<Longrightarrow> length (transpose M) = c"
  by (simp add: length_transpose foldr_max_rows)

lemma membrane_jacobian_row_length:
  assumes "wf_profile p" "length Du = prof_N p" "0 < prof_N p" "i < length K"
  shows "length (membrane_jacobian p K n e sc Du ! i) = prof_N p"
proof -
  let ?N = "prof_N p"
  let ?D = "map (map Fin) (prof_D p)"
  let ?h = "map Fin (prof_h p)"
  let ?nu = "map (jac_nu n e) Du"
  let ?nh = "map (jac_nu_hat n e) Du"
  let ?Gp = "gradient_product (map2 (\<lambda>v w. Fin (- 1) * np_pow v 2 * w) ?nu ?nh) ?D"
  let ?J1 = "gradient_product (map2 (*) ?h Du) ?Gp"
  let ?J2 = "gradient_product (map2 (*) ?h ?nu) ?D"
  let ?M = "map2 (map2 (+)) ?J1 ?J2"
  from assms(1) have D: "length ?D = ?N" "list_all (\<lambda>row. length row = ?N) ?D"
    and h: "length ?h = ?N"
    by (simp_all add: wf_profile_def list_all_length)
  have Gp: "length ?Gp = ?N" "list_all (\<lambda>row. length row = ?N) ?Gp"
    using gradient_product_shape[OF D] assms(2) by simp_all
  have J1: "length ?J1 = ?N" "list_all (\<lambda>row. length row = ?N) ?J1"
    using gradient_product_shape[OF Gp] assms(2) h by simp_all
  have J2: "length ?J2 = ?N" "list_all (\<lambda>row. length row = ?N) ?J2"
    using gradient_product_shape[OF D] assms(2) h by simp_all
  have M: "length ?M = ?N" "list_all (\<lambda>row. length row = ?N) ?M"
    using matrix_sum_shape[OF J1 J2] by simp_all
  have ne: "?M \<noteq> []" using M(1) assms(3) by auto
  have t: "length (transpose ?M) = ?N"
    by (rule length_transpose_rows[OF ne M(2)])
  have "membrane_jacobian p K n e sc Du ! i =
      map (\<lambda>x. Fin sc * x) (map (\<lambda>col. fsum (map2 (*) (K ! i) col)) (transpose ?M))"
    using assms(4) by (simp add: membrane_jacobian_def Let_def np_dot_mat_def)
  then show ?thesis using t by simp
qed

lemma sub_diag_diagonal:
  assumes "i < k" "i < length (M ! i)"
  shows "sub_diag k M v ! i ! i = M ! i ! i - v ! i"
    and "length (sub_diag k M v ! i) = length (M ! i)"
  using assms by (simp_all add: sub_diag_def)

lemma minus_not_finite:
  "\<not> np_isfinite b \<Longrightarrow> \<not> np_isfinite (a - b)" "\<not> np_isfinite a \<Longrightarrow> \<not> np_isfinite (a - b)"
  by (cases a; cases b; simp add: minus_fval_def)+

lemma LateralIceStream_jacobian_diagonal:
  assumes "wf_profile (ls_profile s)" "length u = prof_N (ls_profile s)"
    "i < prof_N (ls_profile s)" "length K = prof_N (ls_profile s)"
  shows "LateralIceStream_jacobian s K Hf u sc ! i ! i =
     membrane_jacobian (ls_profile s) K (ls_n s) (ls_nu_eps s) sc (strain_rate (ls_profile s) u) ! i ! i
       - J_basal sc (ls_mu s) (ls_As s) (ls_m s) Hf u ! i
       - J_lateral sc (ls_W s) (ls_A s) (ls_n s) (prof_h (ls_profile s)) u ! i"
proof -
  let ?p = "ls_profile s"
  let ?Jpde = "membrane_jacobian ?p K (ls_n s) (ls_nu_eps s) sc (strain_rate ?p u)"
  let ?Jb = "J_basal sc (ls_mu s) (ls_As s) (ls_m s) Hf u"
  let ?Jl = "J_lateral sc (ls_W s) (ls_A s) (ls_n s) (prof_h ?p) u"
  have lDu: "length (strain_rate ?p u) = prof_N ?p"
    using assms(1) by (simp add: length_strain_rate wf_profile_def)
  have pos: "0 < prof_N ?p" using assms(3) by simp
  have iK: "i < length K" using assms(3,4) by simp
  have row: "length (?Jpde ! i) = prof_N ?p"
    by (rule membrane_jacobian_row_length[OF assms(1) lDu pos iK])
  have iu: "i < length u" using assms(2,3) by simp
  have i1: "i < length (?Jpde ! i)" using row assms(3) by simp
  have d1: "sub_diag (length u) ?Jpde ?Jb ! i ! i = ?Jpde ! i ! i - ?Jb ! i"
    and l1: "length (sub_diag (length u) ?Jpde ?Jb ! i) = length (?Jpde ! i)"
    using sub_diag_diagonal[OF iu i1] by simp_all
  have i2: "i < length (sub_diag (length u) ?Jpde ?Jb ! i)" using l1 i1 by simp
  have d2: "sub_diag (length u) (sub_diag (length u) ?Jpde ?Jb) ?Jl ! i ! i =
      sub_diag (length u) ?Jpde ?Jb ! i ! i - ?Jl ! i"
    using sub_diag_diagonal(1)[OF iu i2] by simp
  have "LateralIceStream_jacobian s K Hf u sc ! i =
      sub_diag (length u) (sub_diag (length u) ?Jpde ?Jb) ?Jl ! i"
    using iu by (simp add: LateralIceStream_jacobian_def Let_def nth_append length_sub_diag)
  then show ?thesis by (simp only: d2 d1)
qed

text \<open>
  C6. For the confined model with a sliding exponent \<open>m > 1\<close>, the basal term of the
  Jacobian is singular at zero velocity: at every node \<open>i\<close> with \<open>u[i] = 0\<close> the entry
  \<open>J_basal[i]\<close> is not finite (the exponent \<open>(1 - m) / m\<close> is negative, and nothing is
  added to \<open>abs_u\<close>), and so is the diagonal entry \<open>J[i, i]\<close> of the matrix that
  \<^verbatim>\<open>compute_jacobian\<close> returns.
\<close>

theorem J_basal_singular_at_zero:
  assumes "ls_inv s hp" "length u = prof_N (ls_profile s)" "i < prof_N (ls_profile s)"
    and "1 < ls_m s" "to_fval (u ! i) = Fin 0"
  shows "(1 - ls_m s) / ls_m s < 0 \<and>
         \<not> np_isfinite
             (J_basal scale (ls_mu s) (ls_As s) (ls_m s) (the_vec (hp ! ls_Hf s)) u ! i) \<and>
         (\<exists>hp'. LateralIceStream_compute_jacobian s u scale hp = Inr (ls_J s, hp') \<and>
                 \<not> np_isfinite (the_mat (hp' ! ls_J s) ! i ! i))"
proof -
  let ?Hf = "the_vec (hp ! ls_Hf s)"
  let ?K = "the_mat (hp ! ls_K s)"
  have lH: "length ?Hf = prof_N (ls_profile s)"
    by (rule ls_inv_Hf_length[OF assms(1)])
  from assms(1) have wf: "wf_profile (ls_profile s)" and J: "ls_J s < length hp"
    and Kr: "is_mat_of_rows (prof_N (ls_profile s)) (hp ! ls_K s)"
    by (simp_all add: ls_inv_def)
  have lK: "length ?K = prof_N (ls_profile s)"
    using is_mat_of_rowsD[OF Kr] by fastforce
  have e: "(1 - ls_m s) / ls_m s < 0" using assms(4) by (simp add: field_simps)
  have "J_basal scale (ls_mu s) (ls_As s) (ls_m s) ?Hf u ! i
      = J_basal_entry scale (ls_mu s) (ls_As s) (ls_m s) (?Hf ! i) (u ! i)"
    using J_basal_nth lH assms(2,3) by simp
  then have b: "\<not> np_isfinite (J_basal scale (ls_mu s) (ls_As s) (ls_m s) ?Hf u ! i)"
    using J_basal_entry_singular[OF assms(4,5)] by simp
  have pos: "0 < prof_N (ls_profile s)" and m0: "ls_m s \<noteq> 0" using assms(3,4) by simp_all
  have call: "LateralIceStream_compute_jacobian s u scale hp =
      Inr (ls_J s, hp[ls_J s := Mat (LateralIceStream_jacobian s ?K ?Hf u scale)])"
    by (rule ls_jac_call[OF assms(1,2) pos m0])
  have "\<not> np_isfinite (LateralIceStream_jacobian s ?K ?Hf u scale ! i ! i)"
    unfolding LateralIceStream_jacobian_diagonal[OF wf assms(2,3) lK]
    using b minus_not_finite by blast
  then have "\<not> np_isfinite
      (the_mat (hp[ls_J s := Mat (LateralIceStream_jacobian s ?K ?Hf u scale)] ! ls_J s) ! i ! i)"
    using J by simp
  with call e b show ?thesis by blast
qed

theorem J_basal_singular_at_zero_witness:
  "ls_inv ex_ls ex_ls_heap \<and> length [Val 0, Val 2] = prof_N (ls_profile ex_ls) \<and>
   0 < prof_N (ls_profile ex_ls) \<and> 1 < ls_m ex_ls \<and> to_fval ([Val 0, Val 2] ! 0) = Fin 0 \<and>
   (1 - ls_m ex_ls) / ls_m ex_ls < 0 \<and>
   \<not> np_isfinite (J_basal (1 / 100) (ls_mu ex_ls) (ls_As ex_ls) (ls_m ex_ls)
                     (the_vec (ex_ls_heap ! ls_Hf ex_ls)) [Val 0, Val 2] ! 0) \<and>
   (\<exists>hp'. LateralIceStream_compute_jacobian ex_ls [Val 0, Val 2] (1 / 100) ex_ls_heap
             = Inr (ls_J ex_ls, hp') \<and>
           \<not> np_isfinite (the_mat (hp' ! ls_J ex_ls) ! 0 ! 0))"
proof -
  have h: "length [Val 0, Val 2] = prof_N (ls_profile ex_ls)" "0 < prof_N (ls_profile ex_ls)"
    "1 < ls_m ex_ls" "to_fval ([Val 0, Val 2] ! 0) = Fin 0"
    by (simp_all add: ex_ls_def ex_profile_def)
  from J_basal_singular_at_zero[OF ex_ls_inv h, of "1 / 100"] ex_ls_inv h
  show ?thesis by (intro conjI) simp_all
qed

lemma J_basal_entry_signs_cancel:
  "J_basal_entry scale mu As m hf x =
     Fin (scale * mu) * Fin As * hf / Fin m * np_pow (hf * np_abs x) ((1 - m) / m)"
proof (cases "signbit x")
  case True
  then show ?thesis
    unfolding J_basal_entry_def np_copysign_ones_def
    by (simp only: if_True fval_mult_one fval_mult_neg_left fval_mult_neg_right fval_neg_neg)
next
  case False
  then show ?thesis
    unfolding J_basal_entry_def np_copysign_ones_def
    by (simp only: if_False fval_mult_one)
qed

lemma J_basal_entry_not_negative:
  assumes "1 / 100 \<le> r" "0 \<le> scale * mu * As" "0 < m"
  shows "\<not> np_less (J_basal_entry scale mu As m (Fin r) x) (Fin 0)"
proof -
  obtain a where a: "np_abs x = Fin a" "0 \<le> a" using np_abs_Fin by blast
  have r: "0 < r" using assms(1) by simp
  define k where "k = scale * mu * As * r / m"
  have k: "0 \<le> k" unfolding k_def using assms(2,3) r by simp
  have pre: "Fin (scale * mu) * Fin As * Fin r / Fin m = Fin k"
    unfolding k_def using assms(3) by simp
  have base: "Fin r * np_abs x = Fin (r * a)" "0 \<le> r * a"
    using a r by simp_all
  have "np_pow (Fin (r * a)) ((1 - m) / m) = PInf \<or>
        (\<exists>p. np_pow (Fin (r * a)) ((1 - m) / m) = Fin p \<and> 0 \<le> p)"
    using base(2) by simp
  then show ?thesis
  proof
    assume "np_pow (Fin (r * a)) ((1 - m) / m) = PInf"
    then show ?thesis
      unfolding J_basal_entry_signs_cancel pre base(1) using k by simp
  next
    assume "\<exists>p. np_pow (Fin (r * a)) ((1 - m) / m) = Fin p \<and> 0 \<le> p"
    then obtain p where p: "np_pow (Fin (r * a)) ((1 - m) / m) = Fin p" "0 \<le> p" by blast
    show ?thesis
      unfolding J_basal_entry_signs_cancel pre base(1) p(1) using k p(2)
      by (simp add: not_less)
  qed
qed

text \<open>
  C1, as amended. For the confined model with \<open>m \<noteq> 0\<close>, every \<open>u\<close> of length \<open>N\<close> and
  every node \<open>i\<close>: \<^verbatim>\<open>compute_jacobian\<close> subtracts from the diagonal entry \<open>i\<close> the basal
  term \<open>J_basal[i]\<close>, whose two sign factors cancel, so that it is the value of
  \<open>scale \<cdot> mu \<cdot> As \<cdot> Hf[i] / m \<cdot> (Hf[i] \<cdot> abs_u[i])^((1-m)/m)\<close>, taken from left to right as
  the code does; it is the same for \<open>u\<close> and for \<open>-u\<close>; and it is never negative provided
  \<open>scale \<cdot> mu \<cdot> As \<ge> 0\<close> and \<open>m > 0\<close>.
\<close>

theorem J_basal_signs_cancel:
  assumes "ls_inv s hp" "length u = prof_N (ls_profile s)" "i < prof_N (ls_profile s)"
    and "ls_m s \<noteq> 0"
  shows "J_basal scale (ls_mu s) (ls_As s) (ls_m s) (the_vec (hp ! ls_Hf s)) u ! i =
           Fin (scale * ls_mu s) * Fin (ls_As s) * (the_vec (hp ! ls_Hf s) ! i) / Fin (ls_m s)
             * np_pow (the_vec (hp ! ls_Hf s) ! i * np_abs (u ! i)) ((1 - ls_m s) / ls_m s) \<and>
         J_basal scale (ls_mu s) (ls_As s) (ls_m s) (the_vec (hp ! ls_Hf s)) (map fin_neg u) ! i =
           J_basal scale (ls_mu s) (ls_As s) (ls_m s) (the_vec (hp ! ls_Hf s)) u ! i \<and>
         (0 \<le> scale * ls_mu s * ls_As s \<and> 0 < ls_m s \<longrightarrow>
            \<not> np_less (J_basal scale (ls_mu s) (ls_As s) (ls_m s) (the_vec (hp ! ls_Hf s)) u ! i)
                 (Fin 0)) \<and>
         (\<exists>hp'. LateralIceStream_compute_jacobian s u scale hp = Inr (ls_J s, hp') \<and>
            the_mat (hp' ! ls_J s) ! i ! i =
              membrane_jacobian (ls_profile s) (the_mat (hp ! ls_K s)) (ls_n s) (ls_nu_eps s) scale
                  (strain_rate (ls_profile s) u) ! i ! i
                - J_basal scale (ls_mu s) (ls_As s) (ls_m s) (the_vec (hp ! ls_Hf s)) u ! i
                - J_lateral scale (ls_W s) (ls_A s) (ls_n s) (prof_h (ls_profile s)) u ! i)"
proof -
  obtain r where r: "the_vec (hp ! ls_Hf s) ! i = Fin r" "1 / 100 \<le> r"
    using ls_inv_Hf_entry[OF assms(1,3)] by blast
  have lH: "length (the_vec (hp ! ls_Hf s)) = prof_N (ls_profile s)"
    by (rule ls_inv_Hf_length[OF assms(1)])
  have nth: "J_basal scale (ls_mu s) (ls_As s) (ls_m s) (the_vec (hp ! ls_Hf s)) u ! i
      = J_basal_entry scale (ls_mu s) (ls_As s) (ls_m s) (the_vec (hp ! ls_Hf s) ! i) (u ! i)"
    using J_basal_nth[of i "the_vec (hp ! ls_Hf s)" u] lH assms(2,3) by simp
  have nth': "J_basal scale (ls_mu s) (ls_As s) (ls_m s) (the_vec (hp ! ls_Hf s))
        (map fin_neg u) ! i
      = J_basal_entry scale (ls_mu s) (ls_As s) (ls_m s) (the_vec (hp ! ls_Hf s) ! i)
          (fin_neg (u ! i))"
    using J_basal_nth[of i "the_vec (hp ! ls_Hf s)" "map fin_neg u"] lH assms(2,3) by simp
  have eq: "J_basal scale (ls_mu s) (ls_As s) (ls_m s) (the_vec (hp ! ls_Hf s)) u ! i =
           Fin (scale * ls_mu s) * Fin (ls_As s) * (the_vec (hp ! ls_Hf s) ! i) / Fin (ls_m s)
             * np_pow (the_vec (hp ! ls_Hf s) ! i * np_abs (u ! i)) ((1 - ls_m s) / ls_m s)"
    unfolding nth by (rule J_basal_entry_signs_cancel)
  have even: "J_basal scale (ls_mu s) (ls_As s) (ls_m s) (the_vec (hp ! ls_Hf s))
        (map fin_neg u) ! i =
           J_basal scale (ls_mu s) (ls_As s) (ls_m s) (the_vec (hp ! ls_Hf s)) u ! i"
    unfolding nth nth' by (simp only: J_basal_entry_signs_cancel np_abs_neg)
  have sg: "0 \<le> scale * ls_mu s * ls_As s \<and> 0 < ls_m s \<longrightarrow>
            \<not> np_less (J_basal scale (ls_mu s) (ls_As s) (ls_m s) (the_vec (hp ! ls_Hf s)) u ! i)
                 (Fin 0)"
    unfolding nth r(1) using J_basal_entry_not_negative[OF r(2)] by blast
  from assms(1) have wf: "wf_profile (ls_profile s)" and J: "ls_J s < length hp"
    and Kr: "is_mat_of_rows (prof_N (ls_profile s)) (hp ! ls_K s)"
    by (simp_all add: ls_inv_def)
  have lK: "length (the_mat (hp ! ls_K s)) = prof_N (ls_profile s)"
    using is_mat_of_rowsD[OF Kr] by fastforce
  have pos: "0 < prof_N (ls_profile s)" using assms(3) by simp
  have call: "LateralIceStream_compute_jacobian s u scale hp =
      Inr (ls_J s, hp[ls_J s := Mat (LateralIceStream_jacobian s (the_mat (hp ! ls_K s))
                                       (the_vec (hp ! ls_Hf s)) u scale)])"
    by (rule ls_jac_call[OF assms(1,2) pos assms(4)])
  have dg: "the_mat (hp[ls_J s := Mat (LateralIceStream_jacobian s (the_mat (hp ! ls_K s))
                                       (the_vec (hp ! ls_Hf s)) u scale)] ! ls_J s) ! i ! i =
              membrane_jacobian (ls_profile s) (the_mat (hp ! ls_K s)) (ls_n s) (ls_nu_eps s) scale
                  (strain_rate (ls_profile s) u) ! i ! i
                - J_basal scale (ls_mu s) (ls_As s) (ls_m s) (the_vec (hp ! ls_Hf s)) u ! i
                - J_lateral scale (ls_W s) (ls_A s) (ls_n s) (prof_h (ls_profile s)) u ! i"
    using J LateralIceStream_jacobian_diagonal[OF wf assms(2,3) lK] by simp
  from call dg have out: "\<exists>hp'. LateralIceStream_compute_jacobian s u scale hp = Inr (ls_J s, hp') \<and>
            the_mat (hp' ! ls_J s) ! i ! i =
              membrane_jacobian (ls_profile s) (the_mat (hp ! ls_K s)) (ls_n s) (ls_nu_eps s) scale
                  (strain_rate (ls_profile s) u) ! i ! i
                - J_basal scale (ls_mu s) (ls_As s) (ls_m s) (the_vec (hp ! ls_Hf s)) u ! i
                - J_lateral scale (ls_W s) (ls_A s) (ls_n s) (prof_h (ls_profile s)) u ! i"
    by blast
  from eq even sg out show ?thesis by (intro conjI)
qed

theorem J_basal_signs_cancel_witness:
  "ls_inv ex_ls ex_ls_heap \<and> length [Val 1, Val (- 2)] = prof_N (ls_profile ex_ls) \<and>
   1 < prof_N (ls_profile ex_ls) \<and> ls_m ex_ls \<noteq> 0 \<and>
   0 \<le> 1 / 100 * ls_mu ex_ls * ls_As ex_ls \<and> 0 < ls_m ex_ls \<and>
   J_basal (1 / 100) (ls_mu ex_ls) (ls_As ex_ls) (ls_m ex_ls)
       (the_vec (ex_ls_heap ! ls_Hf ex_ls)) [Val 1, Val (- 2)] ! 1 =
     Fin (1 / 100 * ls_mu ex_ls) * Fin (ls_As ex_ls) * (the_vec (ex_ls_heap ! ls_Hf ex_ls) ! 1)
       / Fin (ls_m ex_ls)
       * np_pow (the_vec (ex_ls_heap ! ls_Hf ex_ls) ! 1 * np_abs ([Val 1, Val (- 2)] ! 1))
           ((1 - ls_m ex_ls) / ls_m ex_ls) \<and>
   J_basal (1 / 100) (ls_mu ex_ls) (ls_As ex_ls) (ls_m ex_ls)
       (the_vec (ex_ls_heap ! ls_Hf ex_ls)) (map fin_neg [Val 1, Val (- 2)]) ! 1 =
     J_basal (1 / 100) (ls_mu ex_ls) (ls_As ex_ls) (ls_m ex_ls)
       (the_vec (ex_ls_heap ! ls_Hf ex_ls)) [Val 1, Val (- 2)] ! 1 \<and>
   \<not> np_less (J_basal (1 / 100) (ls_mu ex_ls) (ls_As ex_ls) (ls_m ex_ls)
                (the_vec (ex_ls_heap ! ls_Hf ex_ls)) [Val 1, Val (- 2)] ! 1) (Fin 0) \<and>
   (\<exists>hp'. LateralIceStream_compute_jacobian ex_ls [Val 1, Val (- 2)] (1 / 100) ex_ls_heap
             = Inr (ls_J ex_ls, hp') \<and>
      the_mat (hp' ! ls_J ex_ls) ! 1 ! 1 =
        membrane_jacobian (ls_profile ex_ls) (the_mat (ex_ls_heap ! ls_K ex_ls)) (ls_n ex_ls)
            (ls_nu_eps ex_ls) (1 / 100) (strain_rate (ls_profile ex_ls) [Val 1, Val (- 2)]) ! 1 ! 1
          - J_basal (1 / 100) (ls_mu ex_ls) (ls_As ex_ls) (ls_m ex_ls)
              (the_vec (ex_ls_heap ! ls_Hf ex_ls)) [Val 1, Val (- 2)] ! 1
          - J_lateral (1 / 100) (ls_W ex_ls) (ls_A ex_ls) (ls_n ex_ls) (prof_h (ls_profile ex_ls))
              [Val 1, Val (- 2)] ! 1)"
proof -
  have h: "length [Val 1, Val (- 2)] = prof_N (ls_profile ex_ls)" "1 < prof_N (ls_profile ex_ls)"
    "ls_m ex_ls \<noteq> 0"
    by (simp_all add: ex_ls_def ex_profile_def)
  have g: "0 \<le> 1 / 100 * ls_mu ex_ls * ls_As ex_ls" "0 < ls_m ex_ls"
    by (simp_all add: ex_ls_def)
  from J_basal_signs_cancel[OF ex_ls_inv h, of "1 / 100"] g ex_ls_inv h
  show ?thesis by (intro conjI) blast+
qed

theorem J_basal_negative_counterexample:
  "to_fval (Val 1) \<noteq> Fin 0 \<and> [Val 1] ! 0 = Val 1 \<and>
   J_basal (- 1) 1 100 3 [Fin 1] [Val 1] ! 0 = Fin (- (100 / 3)) \<and>
   np_less (J_basal (- 1) 1 100 3 [Fin 1] [Val 1] ! 0) (Fin 0)"
  by (simp add: J_basal_def J_basal_entry_def np_copysign_ones_def np_abs_def)

section \<open>The flotation height\<close>





lemma IceStream_init_inv:
  assumes "wf_profile p" "IceStream_init p cf A B2 n m hp0 = Inr (s, hp)"
  shows "is_inv s hp"
proof -
  from assms(2) have n: "n \<noteq> 0"
    by (auto simp: IceStream_init_def split: if_splits)
  from assms(2) n have
    s: "is_profile s = p" "is_n s = n" "is_K s = length hp0"
       "is_F s = length hp0 + 1" "is_J s = length hp0 + 2"
    and hp: "hp = hp0 @ [Mat (map (map (\<lambda>d. Fin 2 * Fin d * np_pow (Fin A) (- 1 / n))) (prof_D p)),
                         Vec (replicate (prof_N p + 2) (Fin 0)),
                         Mat (replicate (prof_N p + 2) (replicate (prof_N p) (Fin 0)))]"
    by (auto simp: IceStream_init_def Let_def)
  have lens: "length (prof_D p) = prof_N p"
    using assms(1) by (simp_all add: wf_profile_def)
  show "is_inv s hp"
    unfolding is_inv_def s hp
    using assms(1) n lens by (simp add: nth_append)
qed




section \<open>Copies and references\<close>

lemma is_pde_fresh_copy:
  assumes "is_inv s hp" "length u = prof_N (is_profile s)" "0 < prof_N (is_profile s)"
    and "length u' = prof_N (is_profile s)"
  shows "\<exists>r hp1. IceStream_compute_pde_values s u scale hp = Inr (r, hp1) \<and>
            r \<noteq> is_F s \<and> length hp \<le> r \<and> r < length hp1 \<and>
            hp1 ! r = hp1 ! is_F s \<and>
            is_run s hp1 cs ! r = hp1 ! r \<and>
            (\<exists>r' hp2. IceStream_compute_pde_values s u' scale' (is_run s hp1 cs) = Inr (r', hp2) \<and>
                r' \<noteq> r \<and> r' \<noteq> is_F s \<and> hp2 ! r = hp1 ! r)"
proof -
  let ?res = "IceStream_residual s u scale"
  let ?hp1 = "hp[is_F s := Vec ?res] @ [Vec ?res]"
  let ?r = "length hp"
  let ?hpR = "is_run s ?hp1 cs"
  let ?res' = "IceStream_residual s u' scale'"
  from assms(1) have F: "is_F s < length hp" and J: "is_J s < length hp"
    by (simp_all add: is_inv_def)
  have c1: "IceStream_compute_pde_values s u scale hp = Inr (?r, ?hp1)"
    by (rule is_pde_call[OF assms(1-3)])
  have "is_step s hp (IsPde u scale) = ?hp1" by (simp add: c1)
  then have inv1: "is_inv s ?hp1" using is_step_inv[OF assms(1), of "IsPde u scale"] by simp
  have r: "?r \<noteq> is_F s" "?r \<noteq> is_J s" "?r < length ?hp1" using F J by simp_all
  have copy: "?hp1 ! ?r = ?hp1 ! is_F s" using F by (simp add: nth_append)
  from is_run_frame[OF inv1 r(3) r(1) r(2), of cs]
  have invR: "is_inv s ?hpR" and keep: "?hpR ! ?r = ?hp1 ! ?r" and mono: "length ?hp1 \<le> length ?hpR"
    by simp_all
  have c2: "IceStream_compute_pde_values s u' scale' ?hpR =
      Inr (length ?hpR, ?hpR[is_F s := Vec ?res'] @ [Vec ?res'])"
    by (rule is_pde_call[OF invR assms(4,3)])
  have rR: "?r < length ?hpR" using r(3) mono by simp
  have d: "length ?hpR \<noteq> ?r" using rR by simp
  have FR: "is_F s < length ?hpR" using invR by (simp add: is_inv_def)
  have d2: "length ?hpR \<noteq> is_F s" using FR by simp
  have keep2: "(?hpR[is_F s := Vec ?res'] @ [Vec ?res']) ! ?r = ?hp1 ! ?r"
    using rR r(1) keep by (simp add: nth_append)
  show ?thesis
    apply (rule exI[of _ ?r], rule exI[of _ ?hp1])
    apply (intro conjI)
          apply (rule c1)
         apply (rule r(1))
        apply simp
       apply (rule r(3))
      apply (rule copy)
     apply (rule keep)
    apply (rule exI[of _ "length ?hpR"], rule exI[of _ "?hpR[is_F s := Vec ?res'] @ [Vec ?res']"])
    apply (intro conjI)
       apply (rule c2)
      apply (rule d)
     apply (rule d2)
    apply (rule keep2)
    done
qed

lemma ls_pde_fresh_copy:
  assumes "ls_inv s hp" "length u = prof_N (ls_profile s)" "0 < prof_N (ls_profile s)"
    and "ls_m s \<noteq> 0" "length u' = prof_N (ls_profile s)"
  shows "\<exists>r hp1. LateralIceStream_compute_pde_values s u scale False hp = Inr (Residual r, hp1) \<and>
            r \<noteq> ls_F s \<and> length hp \<le> r \<and> r < length hp1 \<and>
            hp1 ! r = hp1 ! ls_F s \<and>
            ls_run s hp1 cs ! r = hp1 ! r \<and>
            (\<exists>r' hp2. LateralIceStream_compute_pde_values s u' scale' False (ls_run s hp1 cs)
                         = Inr (Residual r', hp2) \<and>
                r' \<noteq> r \<and> r' \<noteq> ls_F s \<and> hp2 ! r = hp1 ! r)"
proof -
  let ?res = "LateralIceStream_residual s (the_vec (hp ! ls_Hf s)) u scale"
  let ?hp1 = "hp[ls_F s := Vec ?res] @ [Vec ?res]"
  let ?r = "length hp"
  let ?hpR = "ls_run s ?hp1 cs"
  let ?res' = "LateralIceStream_residual s (the_vec (?hpR ! ls_Hf s)) u' scale'"
  from assms(1) have F: "ls_F s < length hp" and J: "ls_J s < length hp"
    by (simp_all add: ls_inv_def)
  have c1: "LateralIceStream_compute_pde_values s u scale False hp = Inr (Residual ?r, ?hp1)"
    by (rule ls_pde_call[OF assms(1-4)])
  have "ls_step s hp (LsPde u scale False) = ?hp1" by (simp add: c1)
  then have inv1: "ls_inv s ?hp1"
    using ls_step_inv[OF assms(1), of "LsPde u scale False"] by simp
  have r: "?r \<noteq> ls_F s" "?r \<noteq> ls_J s" "?r < length ?hp1" using F J by simp_all
  have copy: "?hp1 ! ?r = ?hp1 ! ls_F s" using F by (simp add: nth_append)
  from ls_run_frame[OF inv1 r(3) r(1) r(2), of cs]
  have invR: "ls_inv s ?hpR" and keep: "?hpR ! ?r = ?hp1 ! ?r" and mono: "length ?hp1 \<le> length ?hpR"
    by simp_all
  have c2: "LateralIceStream_compute_pde_values s u' scale' False ?hpR =
      Inr (Residual (length ?hpR), ?hpR[ls_F s := Vec ?res'] @ [Vec ?res'])"
    by (rule ls_pde_call[OF invR assms(5,3,4)])
  have rR: "?r < length ?hpR" using r(3) mono by simp
  have d: "length ?hpR \<noteq> ?r" using rR by simp
  have FR: "ls_F s < length ?hpR" using invR by (simp add: ls_inv_def)
  have d2: "length ?hpR \<noteq> ls_F s" using FR by simp
  have keep2: "(?hpR[ls_F s := Vec ?res'] @ [Vec ?res']) ! ?r = ?hp1 ! ?r"
    using rR r(1) keep by (simp add: nth_append)
  show ?thesis
    apply (rule exI[of _ ?r], rule exI[of _ ?hp1])
    apply (intro conjI)
          apply (rule c1)
         apply (rule r(1))
        apply simp
       apply (rule r(3))
      apply (rule copy)
     apply (rule keep)
    apply (rule exI[of _ "length ?hpR"], rule exI[of _ "?hpR[ls_F s := Vec ?res'] @ [Vec ?res']"])
    apply (intro conjI)
       apply (rule c2)
      apply (rule d)
     apply (rule d2)
    apply (rule keep2)
    done
qed

text \<open>
  C8. For both models, a residual call that returns a vector returns a new object that
  holds the contents of the internal buffer at that moment: it is not the buffer and
  not an object that existed before the call, no sequence of later calls on the
  instance changes it, and a later residual call returns yet another object.
\<close>

theorem residual_returns_independent_copy:
  assumes "is_inv s hp" "length u = prof_N (is_profile s)" "0 < prof_N (is_profile s)"
    and "length u' = prof_N (is_profile s)"
    and "ls_inv t hq" "length v = prof_N (ls_profile t)" "0 < prof_N (ls_profile t)"
    and "ls_m t \<noteq> 0" "length v' = prof_N (ls_profile t)"
  shows "(\<exists>r hp1. IceStream_compute_pde_values s u scale hp = Inr (r, hp1) \<and>
            r \<noteq> is_F s \<and> length hp \<le> r \<and> r < length hp1 \<and>
            hp1 ! r = hp1 ! is_F s \<and>
            is_run s hp1 cs ! r = hp1 ! r \<and>
            (\<exists>r' hp2. IceStream_compute_pde_values s u' scale' (is_run s hp1 cs) = Inr (r', hp2) \<and>
                r' \<noteq> r \<and> r' \<noteq> is_F s \<and> hp2 ! r = hp1 ! r)) \<and>
         (\<exists>r hq1. LateralIceStream_compute_pde_values t v scale False hq = Inr (Residual r, hq1) \<and>
            r \<noteq> ls_F t \<and> length hq \<le> r \<and> r < length hq1 \<and>
            hq1 ! r = hq1 ! ls_F t \<and>
            ls_run t hq1 ds ! r = hq1 ! r \<and>
            (\<exists>r' hq2. LateralIceStream_compute_pde_values t v' scale' False (ls_run t hq1 ds)
                         = Inr (Residual r', hq2) \<and>
                r' \<noteq> r \<and> r' \<noteq> ls_F t \<and> hq2 ! r = hq1 ! r))"
  using is_pde_fresh_copy[OF assms(1-4)] ls_pde_fresh_copy[OF assms(5-9)]
  by (intro conjI)

theorem residual_returns_independent_copy_witness:
  "is_inv ex_is ex_is_heap \<and> length [Val 1, Val 3] = prof_N (is_profile ex_is) \<and>
   0 < prof_N (is_profile ex_is) \<and> length [Val 2, Val 5] = prof_N (is_profile ex_is) \<and>
   ls_inv ex_ls ex_ls_heap \<and> length [Val 1, Val 3] = prof_N (ls_profile ex_ls) \<and>
   0 < prof_N (ls_profile ex_ls) \<and> ls_m ex_ls \<noteq> 0 \<and>
   length [Val 2, Val 5] = prof_N (ls_profile ex_ls) \<and>
   (\<exists>r hp1. IceStream_compute_pde_values ex_is [Val 1, Val 3] (1 / 100) ex_is_heap = Inr (r, hp1) \<and>
      r \<noteq> is_F ex_is \<and> length ex_is_heap \<le> r \<and> r < length hp1 \<and>
      hp1 ! r = hp1 ! is_F ex_is \<and>
      is_run ex_is hp1 [IsJac [Val 1, Val 3] (1 / 100)] ! r = hp1 ! r \<and>
      (\<exists>r' hp2. IceStream_compute_pde_values ex_is [Val 2, Val 5] (1 / 100)
                   (is_run ex_is hp1 [IsJac [Val 1, Val 3] (1 / 100)]) = Inr (r', hp2) \<and>
          r' \<noteq> r \<and> r' \<noteq> is_F ex_is \<and> hp2 ! r = hp1 ! r)) \<and>
   (\<exists>r hq1. LateralIceStream_compute_pde_values ex_ls [Val 1, Val 3] (1 / 100) False ex_ls_heap
               = Inr (Residual r, hq1) \<and>
      r \<noteq> ls_F ex_ls \<and> length ex_ls_heap \<le> r \<and> r < length hq1 \<and>
      hq1 ! r = hq1 ! ls_F ex_ls \<and>
      ls_run ex_ls hq1 [LsPde [Val 1, Val 3] (1 / 100) True] ! r = hq1 ! r \<and>
      (\<exists>r' hq2. LateralIceStream_compute_pde_values ex_ls [Val 2, Val 5] (1 / 100) False
                   (ls_run ex_ls hq1 [LsPde [Val 1, Val 3] (1 / 100) True])
                   = Inr (Residual r', hq2) \<and>
          r' \<noteq> r \<and> r' \<noteq> ls_F ex_ls \<and> hq2 ! r = hq1 ! r))"
proof -
  have h1: "length [Val 1, Val 3] = prof_N (is_profile ex_is)" "0 < prof_N (is_profile ex_is)"
    "length [Val 2, Val 5] = prof_N (is_profile ex_is)"
    by (simp_all add: ex_is_def ex_profile_def)
  have h2: "length [Val 1, Val 3] = prof_N (ls_profile ex_ls)" "0 < prof_N (ls_profile ex_ls)"
    "ls_m ex_ls \<noteq> 0" "length [Val 2, Val 5] = prof_N (ls_profile ex_ls)"
    by (simp_all add: ex_ls_def ex_profile_def)
  from residual_returns_independent_copy[OF ex_is_inv h1 ex_ls_inv h2,
      of "1 / 100" "[IsJac [Val 1, Val 3] (1 / 100)]" "1 / 100"
         "[LsPde [Val 1, Val 3] (1 / 100) True]"]
    ex_is_inv h1 ex_ls_inv h2
  show ?thesis by (intro conjI) simp_all
qed


lemma is_jac_twice:
  assumes "is_inv s hp" "length u1 = prof_N (is_profile s)" "0 < prof_N (is_profile s)"
    and "length u2 = prof_N (is_profile s)"
  shows "\<exists>hp1 hp2.
     IceStream_compute_jacobian s u1 sc1 hp = Inr (is_J s, hp1) \<and>
     IceStream_compute_jacobian s u2 sc2 hp1 = Inr (is_J s, hp2) \<and>
     length hp1 = length hp \<and> length hp2 = length hp \<and>
     hp1 ! is_J s = Mat (IceStream_jacobian s (the_mat (hp ! is_K s)) u1 sc1) \<and>
     hp2 ! is_J s = Mat (IceStream_jacobian s (the_mat (hp ! is_K s)) u2 sc2)"
proof -
  let ?K = "the_mat (hp ! is_K s)"
  let ?hp1 = "hp[is_J s := Mat (IceStream_jacobian s ?K u1 sc1)]"
  let ?hp2 = "?hp1[is_J s := Mat (IceStream_jacobian s ?K u2 sc2)]"
  from assms(1) have J: "is_J s < length hp" and KJ: "is_K s \<noteq> is_J s"
    by (auto simp: is_inv_def)
  have c1: "IceStream_compute_jacobian s u1 sc1 hp = Inr (is_J s, ?hp1)"
    by (rule is_jac_call[OF assms(1-3)])
  have "is_step s hp (IsJac u1 sc1) = ?hp1" by (simp add: c1)
  then have inv1: "is_inv s ?hp1" using is_step_inv[OF assms(1), of "IsJac u1 sc1"] by simp
  have K1: "the_mat (?hp1 ! is_K s) = ?K" using KJ by simp
  have c2: "IceStream_compute_jacobian s u2 sc2 ?hp1 = Inr (is_J s, ?hp2)"
    using is_jac_call[OF inv1 assms(4,3), of sc2] by (simp only: K1)
  have v1: "?hp1 ! is_J s = Mat (IceStream_jacobian s ?K u1 sc1)" using J by simp
  have v2: "?hp2 ! is_J s = Mat (IceStream_jacobian s ?K u2 sc2)" using J by simp
  show ?thesis
    apply (rule exI[of _ ?hp1], rule exI[of _ ?hp2])
    apply (intro conjI)
         apply (rule c1)
        apply (rule c2)
       apply simp
      apply simp
     apply (rule v1)
    apply (rule v2)
    done
qed

lemma ls_jac_twice:
  assumes "ls_inv s hp" "length u1 = prof_N (ls_profile s)" "0 < prof_N (ls_profile s)"
    and "ls_m s \<noteq> 0" "length u2 = prof_N (ls_profile s)"
  shows "\<exists>hp1 hp2.
     LateralIceStream_compute_jacobian s u1 sc1 hp = Inr (ls_J s, hp1) \<and>
     LateralIceStream_compute_jacobian s u2 sc2 hp1 = Inr (ls_J s, hp2) \<and>
     length hp1 = length hp \<and> length hp2 = length hp \<and>
     hp1 ! ls_J s = Mat (LateralIceStream_jacobian s (the_mat (hp ! ls_K s))
                           (the_vec (hp ! ls_Hf s)) u1 sc1) \<and>
     hp2 ! ls_J s = Mat (LateralIceStream_jacobian s (the_mat (hp ! ls_K s))
                           (the_vec (hp ! ls_Hf s)) u2 sc2)"
proof -
  let ?K = "the_mat (hp ! ls_K s)"
  let ?Hf = "the_vec (hp ! ls_Hf s)"
  let ?hp1 = "hp[ls_J s := Mat (LateralIceStream_jacobian s ?K ?Hf u1 sc1)]"
  let ?hp2 = "?hp1[ls_J s := Mat (LateralIceStream_jacobian s ?K ?Hf u2 sc2)]"
  from assms(1) have J: "ls_J s < length hp" and KJ: "ls_K s \<noteq> ls_J s"
    and HJ: "ls_Hf s \<noteq> ls_J s"
    by (auto simp: ls_inv_def)
  have c1: "LateralIceStream_compute_jacobian s u1 sc1 hp = Inr (ls_J s, ?hp1)"
    by (rule ls_jac_call[OF assms(1-4)])
  have "ls_step s hp (LsJac u1 sc1) = ?hp1" by (simp add: c1)
  then have inv1: "ls_inv s ?hp1" using ls_step_inv[OF assms(1), of "LsJac u1 sc1"] by simp
  have K1: "the_mat (?hp1 ! ls_K s) = ?K" using KJ by simp
  have H1: "the_vec (?hp1 ! ls_Hf s) = ?Hf" using HJ by simp
  have c2: "LateralIceStream_compute_jacobian s u2 sc2 ?hp1 = Inr (ls_J s, ?hp2)"
    using ls_jac_call[OF inv1 assms(5,3,4), of sc2] by (simp only: K1 H1)
  have v1: "?hp1 ! ls_J s = Mat (LateralIceStream_jacobian s ?K ?Hf u1 sc1)" using J by simp
  have v2: "?hp2 ! ls_J s = Mat (LateralIceStream_jacobian s ?K ?Hf u2 sc2)" using J by simp
  show ?thesis
    apply (rule exI[of _ ?hp1], rule exI[of _ ?hp2])
    apply (intro conjI)
         apply (rule c1)
        apply (rule c2)
       apply simp
      apply simp
     apply (rule v1)
    apply (rule v2)
    done
qed

text \<open>
  C9. For both models, \<^verbatim>\<open>compute_jacobian\<close> returns the buffer \<^verbatim>\<open>self.J\<close> itself: two
  successive calls return the same object, no object is made, and after the second
  call the matrix the first call returned holds the Jacobian of the second call.
\<close>

theorem jacobian_returned_by_reference:
  assumes "is_inv s hp" "length u1 = prof_N (is_profile s)" "0 < prof_N (is_profile s)"
    and "length u2 = prof_N (is_profile s)"
    and "ls_inv t hq" "length v1 = prof_N (ls_profile t)" "0 < prof_N (ls_profile t)"
    and "ls_m t \<noteq> 0" "length v2 = prof_N (ls_profile t)"
  shows "(\<exists>hp1 hp2.
     IceStream_compute_jacobian s u1 sc1 hp = Inr (is_J s, hp1) \<and>
     IceStream_compute_jacobian s u2 sc2 hp1 = Inr (is_J s, hp2) \<and>
     length hp1 = length hp \<and> length hp2 = length hp \<and>
     hp1 ! is_J s = Mat (IceStream_jacobian s (the_mat (hp ! is_K s)) u1 sc1) \<and>
     hp2 ! is_J s = Mat (IceStream_jacobian s (the_mat (hp ! is_K s)) u2 sc2)) \<and>
   (\<exists>hq1 hq2.
     LateralIceStream_compute_jacobian t v1 sc1 hq = Inr (ls_J t, hq1) \<and>
     LateralIceStream_compute_jacobian t v2 sc2 hq1 = Inr (ls_J t, hq2) \<and>
     length hq1 = length hq \<and> length hq2 = length hq \<and>
     hq1 ! ls_J t = Mat (LateralIceStream_jacobian t (the_mat (hq ! ls_K t))
                           (the_vec (hq ! ls_Hf t)) v1 sc1) \<and>
     hq2 ! ls_J t = Mat (LateralIceStream_jacobian t (the_mat (hq ! ls_K t))
                           (the_vec (hq ! ls_Hf t)) v2 sc2))"
  using is_jac_twice[OF assms(1-4)] ls_jac_twice[OF assms(5-9)]
  by (intro conjI)

theorem jacobian_returned_by_reference_witness:
  "is_inv ex_is ex_is_heap \<and> length [Val 1, Val 3] = prof_N (is_profile ex_is) \<and>
   0 < prof_N (is_profile ex_is) \<and> length [Val 2, Val 5] = prof_N (is_profile ex_is) \<and>
   ls_inv ex_ls ex_ls_heap \<and> length [Val 1, Val 3] = prof_N (ls_profile ex_ls) \<and>
   0 < prof_N (ls_profile ex_ls) \<and> ls_m ex_ls \<noteq> 0 \<and>
   length [Val 2, Val 5] = prof_N (ls_profile ex_ls) \<and>
   (\<exists>hp1 hp2.
     IceStream_compute_jacobian ex_is [Val 1, Val 3] (1 / 100) ex_is_heap = Inr (2, hp1) \<and>
     IceStream_compute_jacobian ex_is [Val 2, Val 5] 1 hp1 = Inr (2, hp2) \<and>
     length hp1 = 3 \<and> length hp2 = 3 \<and>
     hp1 ! 2 = Mat (IceStream_jacobian ex_is (the_mat (ex_is_heap ! 0)) [Val 1, Val 3] (1 / 100)) \<and>
     hp2 ! 2 = Mat (IceStream_jacobian ex_is (the_mat (ex_is_heap ! 0)) [Val 2, Val 5] 1)) \<and>
   (\<exists>hq1 hq2.
     LateralIceStream_compute_jacobian ex_ls [Val 1, Val 3] (1 / 100) ex_ls_heap = Inr (3, hq1) \<and>
     LateralIceStream_compute_jacobian ex_ls [Val 2, Val 5] 1 hq1 = Inr (3, hq2) \<and>
     length hq1 = 4 \<and> length hq2 = 4 \<and>
     hq1 ! 3 = Mat (LateralIceStream_jacobian ex_ls (the_mat (ex_ls_heap ! 1))
                      (the_vec (ex_ls_heap ! 0)) [Val 1, Val 3] (1 / 100)) \<and>
     hq2 ! 3 = Mat (LateralIceStream_jacobian ex_ls (the_mat (ex_ls_heap ! 1))
                      (the_vec (ex_ls_heap ! 0)) [Val 2, Val 5] 1))"
proof -
  have h1: "length [Val 1, Val 3] = prof_N (is_profile ex_is)" "0 < prof_N (is_profile ex_is)"
    "length [Val 2, Val 5] = prof_N (is_profile ex_is)"
    by (simp_all add: ex_is_def ex_profile_def)
  have h2: "length [Val 1, Val 3] = prof_N (ls_profile ex_ls)" "0 < prof_N (ls_profile ex_ls)"
    "ls_m ex_ls \<noteq> 0" "length [Val 2, Val 5] = prof_N (ls_profile ex_ls)"
    by (simp_all add: ex_ls_def ex_profile_def)
  have a: "is_J ex_is = 2" "is_K ex_is = 0" "ls_J ex_ls = 3" "ls_K ex_ls = 1" "ls_Hf ex_ls = 0"
    "length ex_is_heap = 3" "length ex_ls_heap = 4"
    by (simp_all add: ex_is_def ex_ls_def ex_is_heap_def ex_ls_heap_def)
  from jacobian_returned_by_reference[OF ex_is_inv h1 ex_ls_inv h2, of "1 / 100" 1]
  have "(\<exists>hp1 hp2.
     IceStream_compute_jacobian ex_is [Val 1, Val 3] (1 / 100) ex_is_heap = Inr (2, hp1) \<and>
     IceStream_compute_jacobian ex_is [Val 2, Val 5] 1 hp1 = Inr (2, hp2) \<and>
     length hp1 = 3 \<and> length hp2 = 3 \<and>
     hp1 ! 2 = Mat (IceStream_jacobian ex_is (the_mat (ex_is_heap ! 0)) [Val 1, Val 3] (1 / 100)) \<and>
     hp2 ! 2 = Mat (IceStream_jacobian ex_is (the_mat (ex_is_heap ! 0)) [Val 2, Val 5] 1)) \<and>
   (\<exists>hq1 hq2.
     LateralIceStream_compute_jacobian ex_ls [Val 1, Val 3] (1 / 100) ex_ls_heap = Inr (3, hq1) \<and>
     LateralIceStream_compute_jacobian ex_ls [Val 2, Val 5] 1 hq1 = Inr (3, hq2) \<and>
     length hq1 = 4 \<and> length hq2 = 4 \<and>
     hq1 ! 3 = Mat (LateralIceStream_jacobian ex_ls (the_mat (ex_ls_heap ! 1))
                      (the_vec (ex_ls_heap ! 0)) [Val 1, Val 3] (1 / 100)) \<and>
     hq2 ! 3 = Mat (LateralIceStream_jacobian ex_ls (the_mat (ex_ls_heap ! 1))
                      (the_vec (ex_ls_heap ! 0)) [Val 2, Val 5] 1))"
    by (simp only: a)
  with ex_is_inv h1 ex_ls_inv h2 show ?thesis by (intro conjI) simp_all
qed

end
